theory Spec2Isabelle
  imports Complex_Main "HOL-Library.Monad_Syntax"
begin

section \<open>Cost model of the AzureRM backend estimator\<close>

text \<open>
  A shallow embedding of \<^verbatim>\<open>costing/azurerm_backend_costs.py\<close>.

  Numbers. A Python \<^verbatim>\<open>int\<close> is an \<open>int\<close>. In the embedding of the whole module a Python
  \<^verbatim>\<open>float\<close> is a \<open>real\<close>: arithmetic is exact there, so rounding, overflow, infinities
  and NaN of IEEE-754 doubles are outside it. The equations proved on it are those the
  code computes operation by operation on the fields of its own record, so the rounding
  of each operation stands on both sides. Two places of the source are embedded a second
  time with binary64 arithmetic, each in its own subsection: the growth projector
  (line 71), whose value and exceptions depend on the rounding, and the log-ingestion
  volume (lines 133 to 140), where a claim rewrites an expression by the field laws.
  \<^verbatim>\<open>envs_per_client\<close> is annotated \<^verbatim>\<open>int\<close> in the dataclass, but the runner
  passes \<^verbatim>\<open>3.5\<close> and nothing converts it, so it is a \<open>real\<close> here.

  Errors. A division whose divisor is a variable is \<open>py_truediv\<close>, which returns
  \<open>ZeroDivisionError\<close> on a zero divisor; a division by a literal is \<open>/\<close>. Reading
  \<^verbatim>\<open>.get\<close> of a tier table that is still \<^verbatim>\<open>None\<close> is \<open>AttributeError\<close>.
  \<^verbatim>\<open>math.ceil\<close>, \<^verbatim>\<open>int()\<close> and the conversion of an \<^verbatim>\<open>int\<close> that meets a float raise
  \<open>OverflowError\<close> or \<open>ValueError\<close> on a double that is infinite or NaN and on an
  \<^verbatim>\<open>int\<close> too large for a double. Exact arithmetic has no such value: the exact embedding
  never returns these two errors, and where it says that the call returns, that holds of
  the code only as long as no double overflows. The binary64 embedding of the growth
  projector returns them.
\<close>

subsection \<open>Python primitives\<close>

datatype error = ZeroDivisionError | AttributeError | OverflowError | ValueError

definition py_truediv :: "real \<Rightarrow> real \<Rightarrow> error + real" where
  "py_truediv x y = (if y = 0 then Inl ZeroDivisionError else Inr (x / y))"

text \<open>\<^verbatim>\<open>int(x)\<close> of a float truncates towards zero.\<close>

definition py_int :: "real \<Rightarrow> int" where
  "py_int x = (if 0 \<le> x then \<lfloor>x\<rfloor> else \<lceil>x\<rceil>)"

text \<open>\<^verbatim>\<open>round(x, 6)\<close>: to six decimals, a tie to the even neighbour.\<close>

definition round_half_even :: "real \<Rightarrow> int" where
  "round_half_even x =
     (let f = \<lfloor>x\<rfloor>; d = x - of_int f
      in if d < 1 / 2 then f
         else if 1 / 2 < d then f + 1
         else if even f then f else f + 1)"

definition py_round6 :: "real \<Rightarrow> real" where
  "py_round6 x = of_int (round_half_even (x * 10 ^ 6)) / 10 ^ 6"

text \<open>\<^verbatim>\<open>sum(xs)\<close> starts from 0 and adds from the left.\<close>

definition py_sum :: "real list \<Rightarrow> real" where
  "py_sum xs = foldl (+) 0 xs"

text \<open>\<^verbatim>\<open>d.get(k, default)\<close>.\<close>

definition dict_get :: "('k \<rightharpoonup> 'v) \<Rightarrow> 'k \<Rightarrow> 'v \<Rightarrow> 'v" where
  "dict_get d k dflt = (case d k of None \<Rightarrow> dflt | Some v \<Rightarrow> v)"

subsection \<open>Inputs and Rates\<close>

text \<open>\<^verbatim>\<open>BackupMode\<close> is the \<^verbatim>\<open>Literal\<close> type of the source, with its three strings as
  constructors. A string outside the type is outside the model.\<close>

datatype BackupMode = none | blobs_operational | blobs_vaulted

record Inputs =
  num_clients :: int
  envs_per_client :: real
  avg_state_size_mb :: real
  deployments_per_env_per_year :: int
  pr_runs_per_client_per_year :: int
  num_regions :: int
  storage_accounts_per_region :: int
  log_bytes_per_txn :: real
  backup_mode :: BackupMode
  blob_vaulted_pi_price_per_month :: real
  blob_vaulted_tiers :: "(string \<rightharpoonup> real) option"
  blob_vaulted_write_per_10k_price :: real
  blob_vaulted_write_ops_per_month_per_account :: real
  backup_vault_storage_gb_per_account_month :: real
  backup_vault_storage_price_per_gb_month :: real
  growth_rate_clients :: real
  years :: int
  hours_per_month :: real

definition default_tiers :: "string \<rightharpoonup> real" where
  "default_tiers =
     [''<10GB'' \<mapsto> 0.10, ''10-100GB'' \<mapsto> 0.30, ''100GB-1TB'' \<mapsto> 0.60, ''>=1TB'' \<mapsto> 1.00]"

text \<open>
  \<^verbatim>\<open>Inputs.__post_init__\<close>: the whole of what construction does beyond storing the
  fields. It runs no check of any field.
\<close>

definition Inputs_post_init :: "Inputs \<Rightarrow> Inputs" where
  "Inputs_post_init self =
     (if blob_vaulted_tiers self = None
      then self\<lparr>blob_vaulted_tiers := Some default_tiers\<rparr>
      else self)"

record Rates =
  storage_gb_month_price :: real
  read_txn_per_10k_price :: real
  write_txn_per_10k_price :: real
  private_endpoint_hour_price :: real
  private_link_data_price_per_gb :: real
  log_ingestion_price_per_gb :: real

subsection \<open>Growth projector and tier lookup\<close>

text \<open>\<^verbatim>\<open>_clients_in_year\<close> in exact arithmetic: the ceiling of the exact product. The year
  index is a \<open>nat\<close>: it is zero-based, and the only caller passes the values of
  \<^verbatim>\<open>range(inputs.years)\<close>. What line 71 returns on doubles, and when it raises, is
  \<open>clients_in_year_b64\<close> further down. \<^verbatim>\<open>_blobs_vaulted_pi_monthly_fee\<close>
  is the tier lookup; the comparisons are tried in the order of the source.\<close>

definition clients_in_year :: "int \<Rightarrow> real \<Rightarrow> nat \<Rightarrow> int" where
  "clients_in_year base_clients growth_rate year_index =
     \<lceil>of_int base_clients * ((1 + growth_rate) ^ year_index)\<rceil>"

definition blobs_vaulted_pi_monthly_fee :: "real \<Rightarrow> real \<Rightarrow> (string \<rightharpoonup> real) \<Rightarrow> real" where
  "blobs_vaulted_pi_monthly_fee per_account_size base_monthly tiers =
     (if per_account_size < 10 then base_monthly * dict_get tiers ''<10GB'' 0
      else if per_account_size < 100 then base_monthly * dict_get tiers ''10-100GB'' 0
      else if per_account_size < 1024 then base_monthly * dict_get tiers ''100GB-1TB'' 0
      else base_monthly * dict_get tiers ''>=1TB'' 1)"

subsection \<open>The result structure\<close>

record Transactions =
  reads :: int
  writes :: int
  total :: int
  read_cost :: real
  write_cost :: real
  total_txn_cost :: real

record PrivateLink =
  endpoint_hours :: real
  data_processed_gb :: real
  endpoint_hour_cost :: real
  data_cost :: real
  total_pl_cost :: real

text \<open>The key \<^verbatim>\<open>"log_bytes_per_txn"\<close> of the logging record is \<open>logged_bytes_per_txn\<close>
  here: the name is taken by the field of \<open>Inputs\<close>.\<close>

record Logging =
  logged_bytes_per_txn :: real
  gb_per_account_per_month :: real
  ingestion_gb_year :: real
  ingestion_cost_year :: real

record Backup =
  mode :: BackupMode
  per_account_size_gb :: real
  pi_monthly_fee_per_account :: real
  instance_cost_year :: real
  vault_storage_cost_year :: real
  backup_write_ops_year :: real
  backup_write_ops_cost_year :: real

record YearBreakdown =
  year_index :: int
  clients :: int
  environments_global :: real
  storage_accounts :: int
  avg_state_size_gb :: real
  storage_gb :: real
  transactions :: Transactions
  private_link :: PrivateLink
  logging :: Logging
  backup :: Backup
  storage_cost_year :: real
  year_total_cost :: real

record Result =
  by_year :: "YearBreakdown list"
  grand_total :: real

subsection \<open>The quantities of one year\<close>

text \<open>The locals of the loop body of \<^verbatim>\<open>estimate_backend_costs\<close>, as functions of the
  inputs and the zero-based year \<open>y\<close>.\<close>

definition total_accounts :: "Inputs \<Rightarrow> int" where
  "total_accounts inputs = num_regions inputs * storage_accounts_per_region inputs"

definition state_size_gb :: "Inputs \<Rightarrow> real" where
  "state_size_gb inputs = avg_state_size_mb inputs / 1024"

definition total_envs :: "Inputs \<Rightarrow> nat \<Rightarrow> real" where
  "total_envs inputs y =
     of_int (clients_in_year (num_clients inputs) (growth_rate_clients inputs) y)
       * envs_per_client inputs"

definition total_state_gb :: "Inputs \<Rightarrow> nat \<Rightarrow> real" where
  "total_state_gb inputs y = total_envs inputs y * state_size_gb inputs"

definition reads_per_env :: "Inputs \<Rightarrow> int" where
  "reads_per_env inputs =
     (3 * deployments_per_env_per_year inputs) + pr_runs_per_client_per_year inputs"

definition writes_per_env :: "Inputs \<Rightarrow> int" where
  "writes_per_env inputs = (1 * deployments_per_env_per_year inputs)"

definition total_reads :: "Inputs \<Rightarrow> nat \<Rightarrow> real" where
  "total_reads inputs y = of_int (reads_per_env inputs) * total_envs inputs y"

definition total_writes :: "Inputs \<Rightarrow> nat \<Rightarrow> real" where
  "total_writes inputs y = of_int (writes_per_env inputs) * total_envs inputs y"

definition total_txns :: "Inputs \<Rightarrow> nat \<Rightarrow> real" where
  "total_txns inputs y = total_reads inputs y + total_writes inputs y"

subsection \<open>Log Analytics ingestion\<close>

text \<open>Lines 133 to 140: the per-account monthly volume and the yearly volume.\<close>

definition log_ingestion :: "Inputs \<Rightarrow> nat \<Rightarrow> error + (real \<times> real)" where
  "log_ingestion inputs y =
     (if total_accounts inputs > 0 then
        (let txns_per_month_all = total_txns inputs y / 12
         in case py_truediv txns_per_month_all (of_int (total_accounts inputs)) of
              Inl e \<Rightarrow> Inl e
            | Inr txns_per_month_per_account \<Rightarrow>
                (let log_gb_per_account_per_month =
                       (txns_per_month_per_account * log_bytes_per_txn inputs) / (1024 ^ 3);
                     log_ingestion_gb_year =
                       of_int (total_accounts inputs) * log_gb_per_account_per_month * 12
                 in Inr (log_gb_per_account_per_month, log_ingestion_gb_year)))
      else Inr (0, 0))"

subsection \<open>Backup\<close>

text \<open>Lines 144 to 178. The dictionary \<^verbatim>\<open>backup\<close> is created with zeros and then
  updated in place; here each update is a record update.\<close>

definition backup_init :: "Inputs \<Rightarrow> Backup" where
  "backup_init inputs =
     \<lparr>mode = backup_mode inputs,
      per_account_size_gb = 0,
      pi_monthly_fee_per_account = 0,
      instance_cost_year = 0,
      vault_storage_cost_year = 0,
      backup_write_ops_year = 0,
      backup_write_ops_cost_year = 0\<rparr>"

definition backup_vaulted :: "Inputs \<Rightarrow> real \<Rightarrow> Backup \<Rightarrow> error + Backup" where
  "backup_vaulted inputs size_gb b =
     (case blob_vaulted_tiers inputs of
        None \<Rightarrow> Inl AttributeError
      | Some tiers \<Rightarrow>
          (let pi_monthly =
                 blobs_vaulted_pi_monthly_fee size_gb (blob_vaulted_pi_price_per_month inputs) tiers;
               yearly_backup_writes =
                 blob_vaulted_write_ops_per_month_per_account inputs
                   * of_int (total_accounts inputs) * 12
           in Inr (b\<lparr>pi_monthly_fee_per_account := pi_monthly,
                      instance_cost_year := pi_monthly * of_int (total_accounts inputs) * 12,
                      vault_storage_cost_year :=
                        backup_vault_storage_gb_per_account_month inputs
                          * backup_vault_storage_price_per_gb_month inputs
                          * of_int (total_accounts inputs) * 12,
                      backup_write_ops_year := yearly_backup_writes,
                      backup_write_ops_cost_year :=
                        (yearly_backup_writes / 10000) * blob_vaulted_write_per_10k_price inputs\<rparr>)))"

definition backup_of :: "Inputs \<Rightarrow> nat \<Rightarrow> error + Backup" where
  "backup_of inputs y =
     (if backup_mode inputs \<noteq> none \<and> total_accounts inputs > 0 then
        (case (if total_accounts inputs > 0
               then py_truediv (total_state_gb inputs y) (of_int (total_accounts inputs))
               else Inr 0) of
           Inl e \<Rightarrow> Inl e
         | Inr size_gb \<Rightarrow>
             (let b = (backup_init inputs)\<lparr>per_account_size_gb := size_gb\<rparr>
              in if backup_mode inputs = blobs_vaulted
                 then backup_vaulted inputs size_gb b
                 else Inr b))
      else Inr (backup_init inputs))"

subsection \<open>One year, the loop and the grand total\<close>

definition year_breakdown :: "Inputs \<Rightarrow> Rates \<Rightarrow> nat \<Rightarrow> error + YearBreakdown" where
  "year_breakdown inputs rates y =
     (let clients_y = clients_in_year (num_clients inputs) (growth_rate_clients inputs) y;
          storage_cost = total_state_gb inputs y * storage_gb_month_price rates * 12;
          read_cost_year = (total_reads inputs y / 10000) * read_txn_per_10k_price rates;
          write_cost_year = (total_writes inputs y / 10000) * write_txn_per_10k_price rates;
          txn_cost_year = read_cost_year + write_cost_year;
          pe_hours_year = of_int (total_accounts inputs) * hours_per_month inputs * 12;
          pe_hour_cost_year = pe_hours_year * private_endpoint_hour_price rates;
          data_processed_gb_year = total_txns inputs y * state_size_gb inputs;
          pe_data_cost_year = data_processed_gb_year * private_link_data_price_per_gb rates;
          private_link_cost_year = pe_hour_cost_year + pe_data_cost_year
      in case log_ingestion inputs y of
           Inl e \<Rightarrow> Inl e
         | Inr (log_gb_per_account_per_month, log_ingestion_gb_year) \<Rightarrow>
             (let log_ingestion_cost_year =
                    log_ingestion_gb_year * log_ingestion_price_per_gb rates
              in case backup_of inputs y of
                   Inl e \<Rightarrow> Inl e
                 | Inr b \<Rightarrow>
                     (let year_total =
                            storage_cost + txn_cost_year + private_link_cost_year
                              + log_ingestion_cost_year;
                          year_total' =
                            (if backup_mode inputs = blobs_vaulted
                             then year_total
                                    + (instance_cost_year b + vault_storage_cost_year b
                                         + backup_write_ops_cost_year b)
                             else year_total)
                      in Inr
                           \<lparr>year_index = int y + 1,
                            clients = clients_y,
                            environments_global = total_envs inputs y,
                            storage_accounts = total_accounts inputs,
                            avg_state_size_gb = py_round6 (state_size_gb inputs),
                            storage_gb = py_round6 (total_state_gb inputs y),
                            transactions =
                              \<lparr>reads = py_int (total_reads inputs y),
                               writes = py_int (total_writes inputs y),
                               total = py_int (total_txns inputs y),
                               read_cost = read_cost_year,
                               write_cost = write_cost_year,
                               total_txn_cost = txn_cost_year\<rparr>,
                            private_link =
                              \<lparr>endpoint_hours = pe_hours_year,
                               data_processed_gb = data_processed_gb_year,
                               endpoint_hour_cost = pe_hour_cost_year,
                               data_cost = pe_data_cost_year,
                               total_pl_cost = private_link_cost_year\<rparr>,
                            logging =
                              \<lparr>logged_bytes_per_txn = log_bytes_per_txn inputs,
                               gb_per_account_per_month = log_gb_per_account_per_month,
                               ingestion_gb_year = log_ingestion_gb_year,
                               ingestion_cost_year = log_ingestion_cost_year\<rparr>,
                            backup = b,
                            storage_cost_year = storage_cost,
                            year_total_cost = year_total'\<rparr>)))"

text \<open>\<^verbatim>\<open>for y in range(inputs.years)\<close>: the years in order, each record appended; an
  error of one year ends the call.\<close>

fun years_loop :: "Inputs \<Rightarrow> Rates \<Rightarrow> nat list \<Rightarrow> YearBreakdown list \<Rightarrow> error + YearBreakdown list" where
  "years_loop inputs rates [] breakdown_by_year = Inr breakdown_by_year"
| "years_loop inputs rates (y # ys) breakdown_by_year =
     (case year_breakdown inputs rates y of
        Inl e \<Rightarrow> Inl e
      | Inr year_rec \<Rightarrow> years_loop inputs rates ys (breakdown_by_year @ [year_rec]))"

definition estimate_backend_costs :: "Inputs \<Rightarrow> Rates \<Rightarrow> error + Result" where
  "estimate_backend_costs inputs rates =
     (case years_loop inputs rates [0 ..< nat (years inputs)] [] of
        Inl e \<Rightarrow> Inl e
      | Inr breakdown_by_year \<Rightarrow>
          Inr \<lparr>by_year = breakdown_by_year,
               grand_total = py_sum (map year_total_cost breakdown_by_year)\<rparr>)"

subsection \<open>Log Analytics ingestion in binary64\<close>

text \<open>
  Lines 133 to 140 once more, with the rounding of every operation written out. A
  double is a real number here; \<open>b64_round\<close> rounds a real to the nearest binary64 number
  with a 53-bit significand, a tie to the even significand. The exponent is searched in
  the normal range \<open>-1022 .. 1023\<close>; \<open>None\<close> stands for a value outside that range
  (subnormal numbers, overflow) and for a division by zero, which this embedding does not
  follow further.
\<close>

definition b64_exponent :: "real \<Rightarrow> int option" where
  "b64_exponent x =
     List.find (\<lambda>e. 2 powi e \<le> \<bar>x\<bar> \<and> \<bar>x\<bar> < 2 powi (e + 1)) [- 1022 .. 1023]"

definition b64_round :: "real \<Rightarrow> real option" where
  "b64_round x =
     (if x = 0 then Some 0
      else case b64_exponent x of
             None \<Rightarrow> None
           | Some e \<Rightarrow>
               (let ulp = 2 powi (e - 52);
                    r = of_int (round_half_even (x / ulp)) * ulp
                in if \<bar>r\<bar> < 2 powi 1024 then Some r else None))"

definition b64_mul :: "real \<Rightarrow> real \<Rightarrow> real option" where
  "b64_mul x y = b64_round (x * y)"

definition b64_div :: "real \<Rightarrow> real \<Rightarrow> real option" where
  "b64_div x y = (if y = 0 then None else b64_round (x / y))"

text \<open>The arguments are the values of \<^verbatim>\<open>total_txns\<close>, \<^verbatim>\<open>total_accounts\<close> and
  \<^verbatim>\<open>inputs.log_bytes_per_txn\<close>; the integer \<^verbatim>\<open>total_accounts\<close> is converted to a double
  where it meets one. The result is the pair of \<^verbatim>\<open>log_gb_per_account_per_month\<close> and
  \<^verbatim>\<open>log_ingestion_gb_year\<close>.\<close>

definition log_ingestion_b64 :: "real \<Rightarrow> int \<Rightarrow> real \<Rightarrow> (real \<times> real) option" where
  "log_ingestion_b64 txns accounts log_bytes =
     (if accounts > 0 then
        do {
          txns_per_month_all \<leftarrow> b64_div txns 12;
          accounts_f \<leftarrow> b64_round (of_int accounts);
          txns_per_month_per_account \<leftarrow> b64_div txns_per_month_all accounts_f;
          bytes \<leftarrow> b64_mul txns_per_month_per_account log_bytes;
          log_gb_per_account_per_month \<leftarrow> b64_div bytes (1024 ^ 3);
          all_accounts \<leftarrow> b64_mul accounts_f log_gb_per_account_per_month;
          log_ingestion_gb_year \<leftarrow> b64_mul all_accounts 12;
          Some (log_gb_per_account_per_month, log_ingestion_gb_year)
        }
      else Some (0, 0))"

subsection \<open>The growth projector in binary64\<close>














subsection \<open>Scenarios\<close>

text \<open>The inputs of \<^verbatim>\<open>costing/runner.py\<close> (before \<^verbatim>\<open>__post_init__\<close>: the tier table is
  not passed, so it is \<^verbatim>\<open>None\<close>), and variants of them used as concrete inputs below.\<close>

definition runner_rates :: Rates where
  "runner_rates = \<lparr>storage_gb_month_price = 0.018, read_txn_per_10k_price = 0.004,
     write_txn_per_10k_price = 0.05, private_endpoint_hour_price = 0.01,
     private_link_data_price_per_gb = 0.01, log_ingestion_price_per_gb = 2.76\<rparr>"

definition runner_inputs :: Inputs where
  "runner_inputs = \<lparr>num_clients = 100, envs_per_client = 3.5, avg_state_size_mb = 1,
     deployments_per_env_per_year = 200, pr_runs_per_client_per_year = 16, num_regions = 3,
     storage_accounts_per_region = 2, log_bytes_per_txn = 1024, backup_mode = blobs_vaulted,
     blob_vaulted_pi_price_per_month = 8, blob_vaulted_tiers = None,
     blob_vaulted_write_per_10k_price = 0.057, blob_vaulted_write_ops_per_month_per_account = 5000,
     backup_vault_storage_gb_per_account_month = 10, backup_vault_storage_price_per_gb_month = 0.023,
     growth_rate_clients = 0.25, years = 5, hours_per_month = 730\<rparr>"

definition invalid_inputs :: Inputs where
  "invalid_inputs =
     runner_inputs\<lparr>num_clients := - 100, growth_rate_clients := - 2, years := 1,
                    blob_vaulted_tiers := Some Map.empty\<rparr>"

definition no_years_inputs :: Inputs where
  "no_years_inputs = runner_inputs\<lparr>years := 0\<rparr>"


definition fractional_inputs :: Inputs where
  "fractional_inputs =
     runner_inputs\<lparr>num_clients := 1, deployments_per_env_per_year := 1,
                    pr_runs_per_client_per_year := 0\<rparr>"

definition negative_accounts_inputs :: Inputs where
  "negative_accounts_inputs = runner_inputs\<lparr>num_regions := - 1\<rparr>"

definition five_accounts_inputs :: Inputs where
  "five_accounts_inputs =
     runner_inputs\<lparr>num_clients := 1, envs_per_client := 1, deployments_per_env_per_year := 1,
                    pr_runs_per_client_per_year := 1, num_regions := 5,
                    storage_accounts_per_region := 1, growth_rate_clients := 0, years := 1\<rparr>"

section \<open>Basic facts\<close>


lemma log_ingestion_eq:
  "log_ingestion i y =
     Inr (if 0 < total_accounts i
          then (total_txns i y / 12 / of_int (total_accounts i) * log_bytes_per_txn i / 1024 ^ 3,
                of_int (total_accounts i)
                  * (total_txns i y / 12 / of_int (total_accounts i) * log_bytes_per_txn i / 1024 ^ 3)
                  * 12)
          else (0, 0))"
  by (simp add: log_ingestion_def py_truediv_def Let_def)

lemma backup_of_not_vaulted:
  "backup_mode i \<noteq> blobs_vaulted \<Longrightarrow>
   backup_of i y =
     Inr ((backup_init i)\<lparr>per_account_size_gb :=
            (if backup_mode i \<noteq> none \<and> 0 < total_accounts i
             then total_state_gb i y / of_int (total_accounts i) else 0)\<rparr>)"
  by (simp add: backup_of_def py_truediv_def Let_def backup_init_def)

lemma backup_of_no_accounts:
  "\<not> 0 < total_accounts i \<Longrightarrow> backup_of i y = Inr (backup_init i)"
  by (simp add: backup_of_def)

lemma backup_of_vaulted:
  "backup_mode i = blobs_vaulted \<Longrightarrow> 0 < total_accounts i \<Longrightarrow>
   blob_vaulted_tiers i = Some tiers \<Longrightarrow>
   backup_of i y =
     Inr \<lparr>mode = blobs_vaulted,
          per_account_size_gb = total_state_gb i y / of_int (total_accounts i),
          pi_monthly_fee_per_account =
            blobs_vaulted_pi_monthly_fee (total_state_gb i y / of_int (total_accounts i))
              (blob_vaulted_pi_price_per_month i) tiers,
          instance_cost_year =
            blobs_vaulted_pi_monthly_fee (total_state_gb i y / of_int (total_accounts i))
              (blob_vaulted_pi_price_per_month i) tiers * of_int (total_accounts i) * 12,
          vault_storage_cost_year =
            backup_vault_storage_gb_per_account_month i
              * backup_vault_storage_price_per_gb_month i * of_int (total_accounts i) * 12,
          backup_write_ops_year =
            blob_vaulted_write_ops_per_month_per_account i * of_int (total_accounts i) * 12,
          backup_write_ops_cost_year =
            (blob_vaulted_write_ops_per_month_per_account i * of_int (total_accounts i) * 12 / 10000)
              * blob_vaulted_write_per_10k_price i\<rparr>"
  by (simp add: backup_of_def backup_vaulted_def py_truediv_def Let_def backup_init_def)

lemma backup_of_vaulted_None:
  "backup_mode i = blobs_vaulted \<Longrightarrow> 0 < total_accounts i \<Longrightarrow>
   blob_vaulted_tiers i = None \<Longrightarrow> backup_of i y = Inl AttributeError"
  by (simp add: backup_of_def backup_vaulted_def py_truediv_def Let_def)

lemma backup_of_total:
  "blob_vaulted_tiers i \<noteq> None \<or> backup_mode i \<noteq> blobs_vaulted \<or> \<not> 0 < total_accounts i
   \<Longrightarrow> \<exists>b. backup_of i y = Inr b"
  by (cases "backup_mode i = blobs_vaulted"; cases "0 < total_accounts i")
     (auto simp: backup_of_vaulted backup_of_not_vaulted backup_of_no_accounts)

lemma year_breakdown_Inr:
  assumes "backup_of i y = Inr b"
  shows "\<exists>yb. year_breakdown i r y = Inr yb"
  using assms by (simp add: year_breakdown_def log_ingestion_eq Let_def)

lemma year_breakdown_backup:
  assumes "year_breakdown i r y = Inr yb"
  shows "backup_of i y = Inr (backup yb)"
  using assms
  by (auto simp: year_breakdown_def log_ingestion_eq Let_def split: sum.splits if_splits)


lemma year_breakdown_fields:
  assumes "year_breakdown i r y = Inr yb"
  shows "year_index yb = int y + 1"
    and "clients yb = clients_in_year (num_clients i) (growth_rate_clients i) y"
    and "environments_global yb = total_envs i y"
    and "storage_accounts yb = total_accounts i"
    and "storage_cost_year yb = total_state_gb i y * storage_gb_month_price r * 12"
  using assms
  by (auto simp: year_breakdown_def log_ingestion_eq Let_def split: sum.splits if_splits)

lemma year_breakdown_transactions:
  assumes "year_breakdown i r y = Inr yb"
  shows "transactions yb =
           \<lparr>reads = py_int (total_reads i y),
            writes = py_int (total_writes i y),
            total = py_int (total_txns i y),
            read_cost = (total_reads i y / 10000) * read_txn_per_10k_price r,
            write_cost = (total_writes i y / 10000) * write_txn_per_10k_price r,
            total_txn_cost =
              (total_reads i y / 10000) * read_txn_per_10k_price r
                + (total_writes i y / 10000) * write_txn_per_10k_price r\<rparr>"
  using assms
  by (auto simp: year_breakdown_def log_ingestion_eq Let_def split: sum.splits if_splits)

lemma year_breakdown_private_link:
  assumes "year_breakdown i r y = Inr yb"
  shows "endpoint_hours (private_link yb) = of_int (total_accounts i) * hours_per_month i * 12"
    and "data_processed_gb (private_link yb) = total_txns i y * state_size_gb i"
    and "total_pl_cost (private_link yb) =
           endpoint_hour_cost (private_link yb) + data_cost (private_link yb)"
  using assms
  by (auto simp: year_breakdown_def log_ingestion_eq Let_def split: sum.splits if_splits)

lemma year_breakdown_logging:
  assumes "year_breakdown i r y = Inr yb"
  shows "log_ingestion i y =
           Inr (gb_per_account_per_month (logging yb), ingestion_gb_year (logging yb))"
    and "ingestion_cost_year (logging yb) =
           ingestion_gb_year (logging yb) * log_ingestion_price_per_gb r"
  using assms
  by (auto simp: year_breakdown_def Let_def split: sum.splits if_splits prod.splits)

lemma year_breakdown_year_total:
  assumes "year_breakdown i r y = Inr yb"
  shows "year_total_cost yb =
           (if backup_mode i = blobs_vaulted
            then storage_cost_year yb + total_txn_cost (transactions yb)
                   + total_pl_cost (private_link yb) + ingestion_cost_year (logging yb)
                   + (instance_cost_year (backup yb) + vault_storage_cost_year (backup yb)
                        + backup_write_ops_cost_year (backup yb))
            else storage_cost_year yb + total_txn_cost (transactions yb)
                   + total_pl_cost (private_link yb) + ingestion_cost_year (logging yb))"
  using assms
  by (auto simp: year_breakdown_def Let_def split: sum.splits if_splits prod.splits)

lemma years_loop_Inr:
  assumes "years_loop i r ys acc = Inr bs"
  shows "length bs = length acc + length ys
         \<and> take (length acc) bs = acc
         \<and> (\<forall>k < length ys. year_breakdown i r (ys ! k) = Inr (bs ! (length acc + k)))"
  using assms
proof (induction ys arbitrary: acc)
  case Nil
  then show ?case by simp
next
  case (Cons y ys)
  from Cons.prems obtain yb where yb: "year_breakdown i r y = Inr yb"
    and rest: "years_loop i r ys (acc @ [yb]) = Inr bs"
    by (auto split: sum.splits)
  from Cons.IH [OF rest] have len: "length bs = length acc + 1 + length ys"
    and tk: "take (length acc + 1) bs = acc @ [yb]"
    and ix: "\<forall>k < length ys. year_breakdown i r (ys ! k) = Inr (bs ! (length acc + 1 + k))"
    by simp_all
  from tk have tk': "take (length acc) bs = acc"
    by (metis append_eq_conv_conj length_append_singleton take_add take_all_iff
        add.commute le_refl length_take min.absorb2 nat_le_linear plus_1_eq_Suc take_take)
  from tk len have hd: "bs ! length acc = yb"
    by (metis nth_append_length nth_take less_add_one)
  have "year_breakdown i r ((y # ys) ! k) = Inr (bs ! (length acc + k))"
    if "k < length (y # ys)" for k
  proof (cases k)
    case 0
    with yb hd show ?thesis by simp
  next
    case (Suc k')
    with that ix show ?thesis by simp
  qed
  with len tk' show ?case by simp
qed

lemma years_loop_total:
  assumes "\<forall>y \<in> set ys. \<exists>yb. year_breakdown i r y = Inr yb"
  shows "\<exists>bs. years_loop i r ys acc = Inr bs"
  using assms
  by (induction ys arbitrary: acc) (auto split: sum.splits)

lemma estimate_Inr:
  assumes "estimate_backend_costs i r = Inr res"
  shows "length (by_year res) = nat (years i)"
    and "y < nat (years i) \<Longrightarrow> year_breakdown i r y = Inr (by_year res ! y)"
    and "grand_total res = py_sum (map year_total_cost (by_year res))"
proof -
  from assms obtain bs where bs: "years_loop i r [0 ..< nat (years i)] [] = Inr bs"
    and res: "res = \<lparr>by_year = bs, grand_total = py_sum (map year_total_cost bs)\<rparr>"
    by (auto simp: estimate_backend_costs_def split: sum.splits)
  from years_loop_Inr [OF bs] res
  show "length (by_year res) = nat (years i)"
    and "y < nat (years i) \<Longrightarrow> year_breakdown i r y = Inr (by_year res ! y)"
    and "grand_total res = py_sum (map year_total_cost (by_year res))"
    by simp_all
qed

lemma estimate_total:
  assumes "blob_vaulted_tiers i \<noteq> None \<or> backup_mode i \<noteq> blobs_vaulted \<or> \<not> 0 < total_accounts i"
  shows "\<exists>res. estimate_backend_costs i r = Inr res"
proof -
  have "\<exists>yb. year_breakdown i r y = Inr yb" for y
    using backup_of_total [OF assms] year_breakdown_Inr by blast
  then obtain bs where "years_loop i r [0 ..< nat (years i)] [] = Inr bs"
    using years_loop_total by blast
  then show ?thesis by (simp add: estimate_backend_costs_def)
qed

lemma post_init_tiers: "blob_vaulted_tiers (Inputs_post_init i) \<noteq> None"
  by (simp add: Inputs_post_init_def)

lemma py_int_le:
  assumes "0 \<le> x"
  shows "of_int (py_int x) \<le> x" and "x \<notin> \<int> \<Longrightarrow> of_int (py_int x) < x"
proof -
  from assms show "of_int (py_int x) \<le> x" by (simp add: py_int_def)
  assume "x \<notin> \<int>"
  then have "of_int \<lfloor>x\<rfloor> \<noteq> x" by (metis Ints_of_int)
  moreover have "of_int \<lfloor>x\<rfloor> \<le> x" by simp
  ultimately have "of_int \<lfloor>x\<rfloor> < x" by linarith
  with assms show "of_int (py_int x) < x" by (simp add: py_int_def)
qed

lemmas runner_simps =
  runner_inputs_def runner_rates_def Inputs_post_init_def total_accounts_def total_envs_def
  total_state_gb_def state_size_gb_def clients_in_year_def total_reads_def total_writes_def
  total_txns_def reads_per_env_def writes_per_env_def

lemma runner_first_year:
  assumes "backup_mode i = blobs_vaulted \<longrightarrow> blob_vaulted_tiers i \<noteq> None" and "0 < years i"
  shows "\<exists>res. estimate_backend_costs i r = Inr res \<and> 0 < length (by_year res)"
proof -
  from assms(1) obtain res where res: "estimate_backend_costs i r = Inr res"
    using estimate_total [of i r] by blast
  from assms(2) have "0 < nat (years i)" by simp
  with estimate_Inr(1) [OF res] have "0 < length (by_year res)" by (simp only:)
  with res show ?thesis by blast
qed

lemma five_accounts_facts:
  "total_txns five_accounts_inputs 0 = 5"
  "total_accounts five_accounts_inputs = 5"
  "log_bytes_per_txn five_accounts_inputs = 1024"
  "total_txns (five_accounts_inputs\<lparr>num_regions := 1\<rparr>) 0 = 5"
  "total_accounts (five_accounts_inputs\<lparr>num_regions := 1\<rparr>) = 1"
  by (simp_all add: five_accounts_inputs_def runner_simps)

subsection \<open>Rounding to binary64\<close>

lemma b64_exponent_eqI:
  assumes "- 1022 \<le> e" "e \<le> 1023" "2 powi e \<le> \<bar>x\<bar>" "\<bar>x\<bar> < 2 powi (e + 1)"
  shows "b64_exponent x = Some e"
proof -
  let ?P = "\<lambda>e. (2::real) powi e \<le> \<bar>x\<bar> \<and> \<bar>x\<bar> < 2 powi (e + 1)"
  from assms(1,2) have "e \<in> set [- 1022 .. 1023]"
    by (simp only: set_upto atLeastAtMost_iff)
  moreover from assms(3,4) have "?P e" by simp
  ultimately have "List.find ?P [- 1022 .. 1023] \<noteq> None"
    unfolding find_None_iff by blast
  then obtain e' where f: "List.find ?P [- 1022 .. 1023] = Some e'" by blast
  then have p': "?P e'" unfolding find_Some_iff by blast
  have "e' = e"
  proof (rule ccontr)
    assume "e' \<noteq> e"
    then consider "e' + 1 \<le> e" | "e + 1 \<le> e'" by linarith
    then show False
    proof cases
      case 1
      then have "(2::real) powi (e' + 1) \<le> 2 powi e" by (intro power_int_increasing) simp_all
      with p' assms(3) show False by linarith
    next
      case 2
      then have "(2::real) powi (e + 1) \<le> 2 powi e'" by (intro power_int_increasing) simp_all
      with p' assms(4) show False by linarith
    qed
  qed
  with f show ?thesis by (simp only: b64_exponent_def)
qed

lemma round_half_even_near: "\<bar>of_int (round_half_even x) - x\<bar> \<le> 1 / 2"
proof -
  have "of_int \<lfloor>x\<rfloor> \<le> x" "x < of_int \<lfloor>x\<rfloor> + 1" by linarith+
  then show ?thesis by (auto simp: round_half_even_def Let_def)
qed

text \<open>Rounding a value below \<open>2 ^ 53\<close>: with \<open>k\<close> the number of binary places of its unit in
  the last place.\<close>

lemma b64_round_places:
  assumes k: "k \<le> 1074"
    and lo: "2 ^ 52 \<le> \<bar>x\<bar> * 2 ^ k" and hi: "\<bar>x\<bar> * 2 ^ k < 2 ^ 53"
  shows "b64_round x = Some (of_int (round_half_even (x * 2 ^ k)) / 2 ^ k)"
proof -
  let ?e = "52 - int k"
  have p: "(2::real) powi ?e = 2 ^ 52 / 2 ^ k" "(2::real) powi (?e + 1) = 2 ^ 53 / 2 ^ k"
    "(2::real) powi (?e - 52) = 1 / 2 ^ k"
  proof -
    have "(2::real) powi ?e = 2 powi 52 / 2 powi (int k)" by (rule power_int_diff) simp
    then show "(2::real) powi ?e = 2 ^ 52 / 2 ^ k" by simp
    have "?e + 1 = 53 - int k" by simp
    moreover have "(2::real) powi (53 - int k) = 2 powi 53 / 2 powi (int k)"
      by (rule power_int_diff) simp
    ultimately show "(2::real) powi (?e + 1) = 2 ^ 53 / 2 ^ k" by simp
    have "?e - 52 = - int k" by simp
    then show "(2::real) powi (?e - 52) = 1 / 2 ^ k"
      by (simp add: power_int_minus_divide)
  qed
  from lo have x0: "x \<noteq> 0" by auto
  have ex: "b64_exponent x = Some ?e"
  proof (rule b64_exponent_eqI)
    from k show "- 1022 \<le> ?e" by simp
    show "?e \<le> 1023" by simp
    from lo show "2 powi ?e \<le> \<bar>x\<bar>" unfolding p by (simp add: field_simps)
    from hi show "\<bar>x\<bar> < 2 powi (?e + 1)" unfolding p by (simp add: field_simps)
  qed
  let ?r = "of_int (round_half_even (x * 2 ^ k)) / (2 ^ k :: real)"
  have "\<bar>of_int (round_half_even (x * 2 ^ k))\<bar> \<le> \<bar>x * 2 ^ k\<bar> + 1 / 2"
    using round_half_even_near [of "x * 2 ^ k"] by linarith
  also have "\<dots> < 2 ^ 53 + 1" using hi by (simp add: abs_mult)
  finally have "\<bar>of_int (round_half_even (x * 2 ^ k)) :: real\<bar> < 2 ^ 53 + 1" .
  moreover have "(1::real) \<le> 2 ^ k" by simp
  ultimately have "\<bar>?r\<bar> < 2 ^ 53 + 1"
  proof -
    assume a: "\<bar>of_int (round_half_even (x * 2 ^ k)) :: real\<bar> < 2 ^ 53 + 1"
      and b: "(1::real) \<le> 2 ^ k"
    have "\<bar>?r\<bar> = \<bar>of_int (round_half_even (x * 2 ^ k)) :: real\<bar> / 2 ^ k"
      by (simp add: abs_divide)
    also from b have "\<dots> \<le> \<bar>of_int (round_half_even (x * 2 ^ k)) :: real\<bar> / 1"
      by (intro divide_left_mono) simp_all
    finally show ?thesis using a by simp
  qed
  also have "\<dots> < (2::real) ^ 1024" by simp
  finally have bound: "\<bar>?r\<bar> < 2 powi 1024" by simp
  have ulp: "(2::real) powi (- int k) = 1 / 2 ^ k"
    by (simp add: power_int_minus_divide)
  from x0 ex bound show ?thesis
    by (simp add: b64_round_def Let_def ulp)
qed

lemma b64_five_accounts_1: "b64_div 5 12 = Some (7505999378950827 / 18014398509481984)"
  using b64_round_places [of 54 "5 / 12"]
  by (simp add: b64_div_def b64_mul_def round_half_even_def Let_def)

lemma b64_five_accounts_2: "b64_round 5 = Some (5)"
  using b64_round_places [of 50 "5"]
  by (simp add: b64_div_def b64_mul_def round_half_even_def Let_def)

lemma b64_five_accounts_3: "b64_div (7505999378950827 / 18014398509481984) 5 = Some (3002399751580331 / 36028797018963968)"
  using b64_round_places [of 56 "7505999378950827 / 90071992547409920"]
  by (simp add: b64_div_def b64_mul_def round_half_even_def Let_def)

lemma b64_five_accounts_4: "b64_mul (3002399751580331 / 36028797018963968) 1024 = Some (3002399751580331 / 35184372088832)"
  using b64_round_places [of 46 "3002399751580331 / 35184372088832"]
  by (simp add: b64_div_def b64_mul_def round_half_even_def Let_def)

lemma b64_five_accounts_5: "b64_div (3002399751580331 / 35184372088832) 1073741824 = Some (3002399751580331 / 37778931862957161709568)"
  using b64_round_places [of 76 "3002399751580331 / 37778931862957161709568"]
  by (simp add: b64_div_def b64_mul_def round_half_even_def Let_def)

lemma b64_five_accounts_6: "b64_mul 5 (3002399751580331 / 37778931862957161709568) = Some (1876499844737707 / 4722366482869645213696)"
  using b64_round_places [of 74 "15011998757901655 / 37778931862957161709568"]
  by (simp add: b64_div_def b64_mul_def round_half_even_def Let_def)

lemma b64_five_accounts_7: "b64_mul (1876499844737707 / 4722366482869645213696) 12 = Some (5629499534213121 / 1180591620717411303424)"
  using b64_round_places [of 70 "5629499534213121 / 1180591620717411303424"]
  by (simp add: b64_div_def b64_mul_def round_half_even_def Let_def)

lemma b64_one_account_2: "b64_round 1 = Some (1)"
  using b64_round_places [of 52 "1"]
  by (simp add: b64_div_def b64_mul_def round_half_even_def Let_def)

lemma b64_one_account_3: "b64_div (7505999378950827 / 18014398509481984) 1 = Some (7505999378950827 / 18014398509481984)"
  using b64_round_places [of 54 "7505999378950827 / 18014398509481984"]
  by (simp add: b64_div_def b64_mul_def round_half_even_def Let_def)

lemma b64_one_account_4: "b64_mul (7505999378950827 / 18014398509481984) 1024 = Some (7505999378950827 / 17592186044416)"
  using b64_round_places [of 44 "7505999378950827 / 17592186044416"]
  by (simp add: b64_div_def b64_mul_def round_half_even_def Let_def)

lemma b64_one_account_5: "b64_div (7505999378950827 / 17592186044416) 1073741824 = Some (7505999378950827 / 18889465931478580854784)"
  using b64_round_places [of 74 "7505999378950827 / 18889465931478580854784"]
  by (simp add: b64_div_def b64_mul_def round_half_even_def Let_def)

lemma b64_one_account_6: "b64_mul 1 (7505999378950827 / 18889465931478580854784) = Some (7505999378950827 / 18889465931478580854784)"
  using b64_round_places [of 74 "7505999378950827 / 18889465931478580854784"]
  by (simp add: b64_div_def b64_mul_def round_half_even_def Let_def)

lemma b64_one_account_7: "b64_mul (7505999378950827 / 18889465931478580854784) 12 = Some (5 / 1048576)"
  using b64_round_places [of 70 "22517998136852481 / 4722366482869645213696"]
  by (simp add: b64_div_def b64_mul_def round_half_even_def Let_def)

subsection \<open>Doubles\<close>

























section \<open>The claims\<close>

subsection \<open>C1: the year total and the grand total\<close>



subsection \<open>C2: the three backup modes\<close>

text \<open>Claim C2 states the formulas of \<open>blobs_vaulted\<close> for every account count. The guard of
  line 154 is \<open>total_accounts > 0\<close>: with the runner's inputs and \<open>-1\<close> region (of 2
  accounts) the vault-storage cost and the write-operations cost stay 0, while the
  products of the claim are \<open>-138/25\<close> and \<open>-171/250\<close>.\<close>

theorem negative_accounts_no_backup_fees:
  "\<exists>res. estimate_backend_costs (Inputs_post_init negative_accounts_inputs) runner_rates = Inr res
     \<and> 0 < length (by_year res)
     \<and> backup_mode (Inputs_post_init negative_accounts_inputs) = blobs_vaulted
     \<and> total_accounts (Inputs_post_init negative_accounts_inputs) = - 2
     \<and> vault_storage_cost_year (backup (by_year res ! 0)) = 0
     \<and> backup_vault_storage_gb_per_account_month (Inputs_post_init negative_accounts_inputs)
          * backup_vault_storage_price_per_gb_month (Inputs_post_init negative_accounts_inputs)
          * of_int (total_accounts (Inputs_post_init negative_accounts_inputs)) * 12
        = - (138 / 25)
     \<and> backup_write_ops_cost_year (backup (by_year res ! 0)) = 0
     \<and> (blob_vaulted_write_ops_per_month_per_account (Inputs_post_init negative_accounts_inputs)
            * of_int (total_accounts (Inputs_post_init negative_accounts_inputs)) * 12 / 10000)
          * blob_vaulted_write_per_10k_price (Inputs_post_init negative_accounts_inputs)
        = - (171 / 250)"
proof -
  let ?i = "Inputs_post_init negative_accounts_inputs"
  obtain res where res: "estimate_backend_costs ?i runner_rates = Inr res" "0 < length (by_year res)"
    using runner_first_year [of ?i runner_rates]
    by (auto simp: negative_accounts_inputs_def runner_simps)
  have ta: "total_accounts ?i = - 2" and m: "backup_mode ?i = blobs_vaulted"
    by (simp_all add: negative_accounts_inputs_def runner_simps)
  have yb: "year_breakdown ?i runner_rates 0 = Inr (by_year res ! 0)"
    using estimate_Inr(2) [OF res(1), of 0] estimate_Inr(1) [OF res(1)] res(2) by simp
  from year_breakdown_backup [OF yb] ta have "backup (by_year res ! 0) = backup_init ?i"
    by (simp add: backup_of_no_accounts)
  then have z: "vault_storage_cost_year (backup (by_year res ! 0)) = 0"
    "backup_write_ops_cost_year (backup (by_year res ! 0)) = 0"
    by (simp_all add: backup_init_def)
  have p: "backup_vault_storage_gb_per_account_month ?i
          * backup_vault_storage_price_per_gb_month ?i * of_int (total_accounts ?i) * 12
        = - (138 / 25)"
    "(blob_vaulted_write_ops_per_month_per_account ?i * of_int (total_accounts ?i) * 12 / 10000)
          * blob_vaulted_write_per_10k_price ?i
        = - (171 / 250)"
    unfolding ta by (simp_all add: negative_accounts_inputs_def runner_inputs_def Inputs_post_init_def)
  from res m ta z p show ?thesis by blast
qed

text \<open>Claim C2, amended. In the record of year \<open>y\<close> of a successful call:
  with mode \<open>none\<close> every backup field is zero and the year total is the sum of the four
  base costs; with mode \<open>blobs_operational\<close> the per-account size is recorded when
  \<open>total_accounts > 0\<close> (the year's state GB, environments times
  \<open>avg_state_size_mb / 1024\<close>, divided by the account count) and is 0 otherwise, the fees
  are zero and the year total is again the sum of the four base costs; with mode
  \<open>blobs_vaulted\<close> and \<open>total_accounts > 0\<close> the monthly fee is the tier lookup at the
  recorded per-account size, the instance cost is the monthly fee times
  \<open>total_accounts\<close> times 12, and the vault-storage cost, the number of write operations
  and their cost are the products of the claim; with \<open>blobs_vaulted\<close> and
  \<open>total_accounts \<le> 0\<close> every backup field is 0; in both cases the three costs are added
  to the year total.\<close>

theorem backup_three_way_policy:
  assumes "estimate_backend_costs i r = Inr res" and "y < length (by_year res)"
  shows
    "(backup_mode i = none \<longrightarrow>
        per_account_size_gb (backup (by_year res ! y)) = 0
        \<and> pi_monthly_fee_per_account (backup (by_year res ! y)) = 0
        \<and> instance_cost_year (backup (by_year res ! y)) = 0
        \<and> vault_storage_cost_year (backup (by_year res ! y)) = 0
        \<and> backup_write_ops_year (backup (by_year res ! y)) = 0
        \<and> backup_write_ops_cost_year (backup (by_year res ! y)) = 0
        \<and> year_total_cost (by_year res ! y) =
              storage_cost_year (by_year res ! y) + total_txn_cost (transactions (by_year res ! y))
                + total_pl_cost (private_link (by_year res ! y))
                + ingestion_cost_year (logging (by_year res ! y)))
     \<and> (backup_mode i = blobs_operational \<longrightarrow>
        (0 < total_accounts i \<longrightarrow>
           per_account_size_gb (backup (by_year res ! y)) =
             environments_global (by_year res ! y) * (avg_state_size_mb i / 1024)
               / of_int (total_accounts i))
        \<and> (\<not> 0 < total_accounts i \<longrightarrow> per_account_size_gb (backup (by_year res ! y)) = 0)
        \<and> pi_monthly_fee_per_account (backup (by_year res ! y)) = 0
        \<and> instance_cost_year (backup (by_year res ! y)) = 0
        \<and> vault_storage_cost_year (backup (by_year res ! y)) = 0
        \<and> backup_write_ops_year (backup (by_year res ! y)) = 0
        \<and> backup_write_ops_cost_year (backup (by_year res ! y)) = 0
        \<and> year_total_cost (by_year res ! y) =
              storage_cost_year (by_year res ! y) + total_txn_cost (transactions (by_year res ! y))
                + total_pl_cost (private_link (by_year res ! y))
                + ingestion_cost_year (logging (by_year res ! y)))
     \<and> (backup_mode i = blobs_vaulted \<longrightarrow>
        (0 < total_accounts i \<longrightarrow>
           per_account_size_gb (backup (by_year res ! y)) =
             environments_global (by_year res ! y) * (avg_state_size_mb i / 1024)
               / of_int (total_accounts i)
           \<and> (\<forall>tiers. blob_vaulted_tiers i = Some tiers \<longrightarrow>
                pi_monthly_fee_per_account (backup (by_year res ! y)) =
                  blobs_vaulted_pi_monthly_fee (per_account_size_gb (backup (by_year res ! y)))
                    (blob_vaulted_pi_price_per_month i) tiers)
           \<and> instance_cost_year (backup (by_year res ! y)) =
               pi_monthly_fee_per_account (backup (by_year res ! y)) * of_int (total_accounts i) * 12
           \<and> vault_storage_cost_year (backup (by_year res ! y)) =
               backup_vault_storage_gb_per_account_month i
                 * backup_vault_storage_price_per_gb_month i * of_int (total_accounts i) * 12
           \<and> backup_write_ops_year (backup (by_year res ! y)) =
               blob_vaulted_write_ops_per_month_per_account i * of_int (total_accounts i) * 12
           \<and> backup_write_ops_cost_year (backup (by_year res ! y)) =
               (blob_vaulted_write_ops_per_month_per_account i * of_int (total_accounts i) * 12
                  / 10000)
                 * blob_vaulted_write_per_10k_price i)
        \<and> (\<not> 0 < total_accounts i \<longrightarrow>
              per_account_size_gb (backup (by_year res ! y)) = 0
              \<and> pi_monthly_fee_per_account (backup (by_year res ! y)) = 0
              \<and> instance_cost_year (backup (by_year res ! y)) = 0
              \<and> vault_storage_cost_year (backup (by_year res ! y)) = 0
              \<and> backup_write_ops_year (backup (by_year res ! y)) = 0
              \<and> backup_write_ops_cost_year (backup (by_year res ! y)) = 0)
        \<and> year_total_cost (by_year res ! y) =
            storage_cost_year (by_year res ! y) + total_txn_cost (transactions (by_year res ! y))
              + total_pl_cost (private_link (by_year res ! y))
              + ingestion_cost_year (logging (by_year res ! y))
              + (instance_cost_year (backup (by_year res ! y))
                   + vault_storage_cost_year (backup (by_year res ! y))
                   + backup_write_ops_cost_year (backup (by_year res ! y))))"
proof -
  let ?yb = "by_year res ! y"
  from assms have yb: "year_breakdown i r y = Inr ?yb"
    using estimate_Inr(2) [OF assms(1), of y] estimate_Inr(1) [OF assms(1)] by simp
  note bk = year_breakdown_backup [OF yb]
  note tot = year_breakdown_year_total [OF yb]
  have size: "total_state_gb i y / of_int (total_accounts i) =
      environments_global ?yb * (avg_state_size_mb i / 1024) / of_int (total_accounts i)"
    using year_breakdown_fields(3) [OF yb] by (simp add: total_state_gb_def state_size_gb_def)
  have nv: "backup ?yb =
              (backup_init i)\<lparr>per_account_size_gb :=
                 (if backup_mode i \<noteq> none \<and> 0 < total_accounts i
                  then total_state_gb i y / of_int (total_accounts i) else 0)\<rparr>"
    if "backup_mode i \<noteq> blobs_vaulted"
    using bk backup_of_not_vaulted [OF that, of y] by simp
  have c_none: ?thesis if m: "backup_mode i = none"
  proof -
    from m nv have "backup ?yb = (backup_init i)\<lparr>per_account_size_gb := 0\<rparr>" by simp
    then show ?thesis using m tot by (simp add: backup_init_def)
  qed
  have c_op: ?thesis if m: "backup_mode i = blobs_operational"
  proof -
    from m nv have "backup ?yb =
        (backup_init i)\<lparr>per_account_size_gb :=
           (if 0 < total_accounts i then total_state_gb i y / of_int (total_accounts i) else 0)\<rparr>"
      by simp
    then show ?thesis using m tot size by (simp add: backup_init_def)
  qed
  have c_v: ?thesis if m: "backup_mode i = blobs_vaulted"
  proof (cases "0 < total_accounts i")
    case False
    with bk have "backup ?yb = backup_init i" by (simp add: backup_of_no_accounts)
    then show ?thesis using False tot m by (simp add: backup_init_def)
  next
    case True
    with bk m obtain tiers where t: "blob_vaulted_tiers i = Some tiers"
      by (cases "blob_vaulted_tiers i") (auto simp: backup_of_vaulted_None)
    from backup_of_vaulted [OF m True t, of y] bk
    have "backup ?yb =
     \<lparr>mode = blobs_vaulted,
          per_account_size_gb = total_state_gb i y / of_int (total_accounts i),
          pi_monthly_fee_per_account =
            blobs_vaulted_pi_monthly_fee (total_state_gb i y / of_int (total_accounts i))
              (blob_vaulted_pi_price_per_month i) tiers,
          instance_cost_year =
            blobs_vaulted_pi_monthly_fee (total_state_gb i y / of_int (total_accounts i))
              (blob_vaulted_pi_price_per_month i) tiers * of_int (total_accounts i) * 12,
          vault_storage_cost_year =
            backup_vault_storage_gb_per_account_month i
              * backup_vault_storage_price_per_gb_month i * of_int (total_accounts i) * 12,
          backup_write_ops_year =
            blob_vaulted_write_ops_per_month_per_account i * of_int (total_accounts i) * 12,
          backup_write_ops_cost_year =
            (blob_vaulted_write_ops_per_month_per_account i * of_int (total_accounts i) * 12 / 10000)
              * blob_vaulted_write_per_10k_price i\<rparr>"
      by simp
    then show ?thesis using m t tot True size by simp
  qed
  from c_none c_op c_v show ?thesis by (cases "backup_mode i") blast+
qed

text \<open>The runner's inputs under each of the three modes, first year, six accounts. Under
  \<open>blobs_vaulted\<close> the per-account size is below 10 GB, so the instance cost is
  \<open>8.0 * 0.10 * 6 * 12\<close>.\<close>

theorem backup_three_way_policy_witness:
  "\<exists>rn ro rv.
      estimate_backend_costs ((Inputs_post_init runner_inputs)\<lparr>backup_mode := none\<rparr>) runner_rates
        = Inr rn
      \<and> estimate_backend_costs
           ((Inputs_post_init runner_inputs)\<lparr>backup_mode := blobs_operational\<rparr>) runner_rates
        = Inr ro
      \<and> estimate_backend_costs (Inputs_post_init runner_inputs) runner_rates = Inr rv
      \<and> 0 < length (by_year rn) \<and> 0 < length (by_year ro) \<and> 0 < length (by_year rv)
      \<and> per_account_size_gb (backup (by_year rn ! 0)) = 0
      \<and> instance_cost_year (backup (by_year rn ! 0)) = 0
      \<and> vault_storage_cost_year (backup (by_year rn ! 0)) = 0
      \<and> backup_write_ops_cost_year (backup (by_year rn ! 0)) = 0
      \<and> per_account_size_gb (backup (by_year ro ! 0)) = 350 * (1 / 1024) / 6
      \<and> instance_cost_year (backup (by_year ro ! 0)) = 0
      \<and> vault_storage_cost_year (backup (by_year ro ! 0)) = 0
      \<and> backup_write_ops_cost_year (backup (by_year ro ! 0)) = 0
      \<and> pi_monthly_fee_per_account (backup (by_year rv ! 0)) = 8.0 * 0.10
      \<and> instance_cost_year (backup (by_year rv ! 0)) = 8.0 * 0.10 * 6 * 12
      \<and> vault_storage_cost_year (backup (by_year rv ! 0)) = 10.0 * 0.023 * 6 * 12
      \<and> backup_write_ops_cost_year (backup (by_year rv ! 0)) = (5000 * 6 * 12 / 10000) * 0.057"
proof -
  let ?n = "(Inputs_post_init runner_inputs)\<lparr>backup_mode := none\<rparr>"
  let ?o = "(Inputs_post_init runner_inputs)\<lparr>backup_mode := blobs_operational\<rparr>"
  let ?v = "Inputs_post_init runner_inputs"
  obtain rn where rn: "estimate_backend_costs ?n runner_rates = Inr rn" "0 < length (by_year rn)"
    using runner_first_year [of ?n runner_rates] by (auto simp: runner_simps)
  obtain ro where ro: "estimate_backend_costs ?o runner_rates = Inr ro" "0 < length (by_year ro)"
    using runner_first_year [of ?o runner_rates] by (auto simp: runner_simps)
  obtain rv where rv: "estimate_backend_costs ?v runner_rates = Inr rv" "0 < length (by_year rv)"
    using runner_first_year [of ?v runner_rates] by (auto simp: runner_simps)
  have "year_breakdown ?o runner_rates 0 = Inr (by_year ro ! 0)"
    using estimate_Inr(2) [OF ro(1), of 0] estimate_Inr(1) [OF ro(1)] ro(2) by simp
  from year_breakdown_fields(3) [OF this]
  have eo: "environments_global (by_year ro ! 0) = 350" by (simp add: runner_simps)
  have "year_breakdown ?v runner_rates 0 = Inr (by_year rv ! 0)"
    using estimate_Inr(2) [OF rv(1), of 0] estimate_Inr(1) [OF rv(1)] rv(2) by simp
  from year_breakdown_fields(3) [OF this]
  have ev: "environments_global (by_year rv ! 0) = 350" by (simp add: runner_simps)
  have n: "per_account_size_gb (backup (by_year rn ! 0)) = 0
      \<and> instance_cost_year (backup (by_year rn ! 0)) = 0
      \<and> vault_storage_cost_year (backup (by_year rn ! 0)) = 0
      \<and> backup_write_ops_cost_year (backup (by_year rn ! 0)) = 0"
    using backup_three_way_policy [OF rn] by simp
  have o: "per_account_size_gb (backup (by_year ro ! 0)) = 350 * (1 / 1024) / 6
      \<and> instance_cost_year (backup (by_year ro ! 0)) = 0
      \<and> vault_storage_cost_year (backup (by_year ro ! 0)) = 0
      \<and> backup_write_ops_cost_year (backup (by_year ro ! 0)) = 0"
    using backup_three_way_policy [OF ro] eo by (simp add: runner_simps)
  have v: "pi_monthly_fee_per_account (backup (by_year rv ! 0)) = 8.0 * 0.10
      \<and> instance_cost_year (backup (by_year rv ! 0)) = 8.0 * 0.10 * 6 * 12
      \<and> vault_storage_cost_year (backup (by_year rv ! 0)) = 10.0 * 0.023 * 6 * 12
      \<and> backup_write_ops_cost_year (backup (by_year rv ! 0)) = (5000 * 6 * 12 / 10000) * 0.057"
    using backup_three_way_policy [OF rv] ev
    by (simp add: runner_simps blobs_vaulted_pi_monthly_fee_def dict_get_def default_tiers_def)
  from rn ro rv n o v show ?thesis by blast
qed

subsection \<open>C3: the tier lookup\<close>

text \<open>Claim C3. The tier lookup maps a size in \<open>[0, 10)\<close> to the key \<^verbatim>\<open><10GB\<close>, in \<open>[10, 100)\<close> to
  \<^verbatim>\<open>10-100GB\<close>, in \<open>[100, 1024)\<close> to \<^verbatim>\<open>100GB-1TB\<close> and from 1024 on to \<^verbatim>\<open>>=1TB\<close>; the fee
  is the base price times the table's fraction for the key, a missing key counting as 0 for
  the three lower bands and as 1 for the top band. An \<open>Inputs\<close> built without a table gets
  the default table, and with it and base 8.0 the fee is \<open>8.0 * 0.10\<close> at 9.999,
  \<open>8.0 * 0.30\<close> at 10.0 and \<open>8.0 * 1.00\<close> at 1024.0.\<close>

theorem tier_lookup_bands:
  "(0 \<le> s \<and> s < 10 \<longrightarrow>
      blobs_vaulted_pi_monthly_fee s base tiers =
        base * (case tiers ''<10GB'' of None \<Rightarrow> 0 | Some f \<Rightarrow> f))
   \<and> (10 \<le> s \<and> s < 100 \<longrightarrow>
      blobs_vaulted_pi_monthly_fee s base tiers =
        base * (case tiers ''10-100GB'' of None \<Rightarrow> 0 | Some f \<Rightarrow> f))
   \<and> (100 \<le> s \<and> s < 1024 \<longrightarrow>
      blobs_vaulted_pi_monthly_fee s base tiers =
        base * (case tiers ''100GB-1TB'' of None \<Rightarrow> 0 | Some f \<Rightarrow> f))
   \<and> (1024 \<le> s \<longrightarrow>
      blobs_vaulted_pi_monthly_fee s base tiers =
        base * (case tiers ''>=1TB'' of None \<Rightarrow> 1 | Some f \<Rightarrow> f))
   \<and> (blob_vaulted_tiers i = None \<longrightarrow>
        blob_vaulted_tiers (Inputs_post_init i) = Some default_tiers)
   \<and> blobs_vaulted_pi_monthly_fee 9.999 8.0 default_tiers = 8.0 * 0.10
   \<and> blobs_vaulted_pi_monthly_fee 10.0 8.0 default_tiers = 8.0 * 0.30
   \<and> blobs_vaulted_pi_monthly_fee 1024.0 8.0 default_tiers = 8.0 * 1.00"
  by (simp add: blobs_vaulted_pi_monthly_fee_def dict_get_def default_tiers_def Inputs_post_init_def)

text \<open>One size in each band with an empty table (the fallbacks 0, 0, 0 and 1), one size with
  the default table, and the default table of the runner's inputs.\<close>

theorem tier_lookup_bands_witness:
  "blobs_vaulted_pi_monthly_fee 5 8 Map.empty = 0
   \<and> blobs_vaulted_pi_monthly_fee 50 8 Map.empty = 0
   \<and> blobs_vaulted_pi_monthly_fee 500 8 Map.empty = 0
   \<and> blobs_vaulted_pi_monthly_fee 2000 8 Map.empty = 8
   \<and> blobs_vaulted_pi_monthly_fee 500 8 default_tiers = 8 * 0.60
   \<and> blob_vaulted_tiers (Inputs_post_init runner_inputs) = Some default_tiers"
  using tier_lookup_bands [of 5 8 Map.empty runner_inputs] tier_lookup_bands [of 50 8 Map.empty runner_inputs]
    tier_lookup_bands [of 500 8 Map.empty runner_inputs] tier_lookup_bands [of 2000 8 Map.empty runner_inputs]
    tier_lookup_bands [of 500 8 default_tiers runner_inputs]
  by (simp add: runner_inputs_def default_tiers_def)

subsection \<open>C4: the growth projector\<close>




subsection \<open>C5: reads, writes, storage and transaction cost\<close>

text \<open>Claim C5. \<open>reads_per_env\<close> is three times the deployments plus the PR runs and
  \<open>writes_per_env\<close> is the deployments; the totals are these times the year's
  \<open>environments_global\<close>; the storage cost is
  \<open>environments_global * avg_state_size_gb * storage_gb_month_price * 12\<close>, where
  \<open>avg_state_size_gb\<close> is the local of the source, \<open>avg_state_size_mb / 1024\<close> (the
  reported field of that name is its rounding to six decimals); the transaction cost is
  \<open>(total_reads / 10000) * read_price + (total_writes / 10000) * write_price\<close>. With the
  scale values of the scenario, the first year has 350 environments, 6 storage accounts,
  616 reads and 200 writes per environment.\<close>

theorem transaction_and_storage_formulas:
  assumes "estimate_backend_costs i r = Inr res" and "y < length (by_year res)"
  shows
    "reads_per_env i = 3 * deployments_per_env_per_year i + pr_runs_per_client_per_year i
     \<and> writes_per_env i = deployments_per_env_per_year i
     \<and> total_reads i y = of_int (reads_per_env i) * environments_global (by_year res ! y)
     \<and> total_writes i y = of_int (writes_per_env i) * environments_global (by_year res ! y)
     \<and> storage_cost_year (by_year res ! y) =
          environments_global (by_year res ! y) * (avg_state_size_mb i / 1024)
            * storage_gb_month_price r * 12
     \<and> total_txn_cost (transactions (by_year res ! y)) =
          (total_reads i y / 10000) * read_txn_per_10k_price r
            + (total_writes i y / 10000) * write_txn_per_10k_price r
     \<and> (num_clients i = 100 \<and> envs_per_client i = 3.5
          \<and> deployments_per_env_per_year i = 200 \<and> pr_runs_per_client_per_year i = 16
          \<and> num_regions i = 3 \<and> storage_accounts_per_region i = 2 \<and> y = 0 \<longrightarrow>
        environments_global (by_year res ! y) = 350.0
        \<and> storage_accounts (by_year res ! y) = 6
        \<and> reads_per_env i = 616 \<and> writes_per_env i = 200)"
proof -
  let ?yb = "by_year res ! y"
  from assms have yb: "year_breakdown i r y = Inr ?yb"
    using estimate_Inr(1,2) [OF assms(1)] by simp
  note f = year_breakdown_fields [OF yb]
  have tx: "total_txn_cost (transactions ?yb) =
          (total_reads i y / 10000) * read_txn_per_10k_price r
            + (total_writes i y / 10000) * write_txn_per_10k_price r"
    by (simp add: year_breakdown_transactions [OF yb])
  have sc: "storage_cost_year ?yb =
          environments_global ?yb * (avg_state_size_mb i / 1024) * storage_gb_month_price r * 12"
    using f(3,5) by (simp add: total_state_gb_def state_size_gb_def)
  have scen: "environments_global ?yb = 350.0 \<and> storage_accounts ?yb = 6
               \<and> reads_per_env i = 616 \<and> writes_per_env i = 200"
    if "num_clients i = 100" "envs_per_client i = 3.5"
       "deployments_per_env_per_year i = 200" "pr_runs_per_client_per_year i = 16"
       "num_regions i = 3" "storage_accounts_per_region i = 2" "y = 0"
    using that f(3,4)
    by (simp add: total_envs_def clients_in_year_def total_accounts_def reads_per_env_def
        writes_per_env_def)
  have rw: "reads_per_env i = 3 * deployments_per_env_per_year i + pr_runs_per_client_per_year i"
    "writes_per_env i = deployments_per_env_per_year i"
    by (simp_all add: reads_per_env_def writes_per_env_def)
  have tr: "total_reads i y = of_int (reads_per_env i) * environments_global ?yb"
    "total_writes i y = of_int (writes_per_env i) * environments_global ?yb"
    using f(3) by (simp_all add: total_reads_def total_writes_def)
  from rw tr sc tx scen show ?thesis by blast
qed

text \<open>The runner's inputs are the scenario; its first year.\<close>

theorem transaction_and_storage_formulas_witness:
  "\<exists>res. estimate_backend_costs (Inputs_post_init runner_inputs) runner_rates = Inr res
     \<and> 0 < length (by_year res)
     \<and> environments_global (by_year res ! 0) = 350.0
     \<and> storage_accounts (by_year res ! 0) = 6
     \<and> reads_per_env (Inputs_post_init runner_inputs) = 616
     \<and> writes_per_env (Inputs_post_init runner_inputs) = 200
     \<and> storage_cost_year (by_year res ! 0) = 350.0 * (1 / 1024) * 0.018 * 12
     \<and> total_txn_cost (transactions (by_year res ! 0)) =
         (616 * 350.0 / 10000) * 0.004 + (200 * 350.0 / 10000) * 0.05"
proof -
  let ?v = "Inputs_post_init runner_inputs"
  obtain res where res: "estimate_backend_costs ?v runner_rates = Inr res" "0 < length (by_year res)"
    using runner_first_year [of ?v runner_rates] by (auto simp: runner_simps)
  have pre: "num_clients ?v = 100 \<and> envs_per_client ?v = 3.5
          \<and> deployments_per_env_per_year ?v = 200 \<and> pr_runs_per_client_per_year ?v = 16
          \<and> num_regions ?v = 3 \<and> storage_accounts_per_region ?v = 2 \<and> (0::nat) = 0"
    by (simp add: runner_inputs_def Inputs_post_init_def)
  from transaction_and_storage_formulas [OF res] pre
  have "environments_global (by_year res ! 0) = 350.0
     \<and> storage_accounts (by_year res ! 0) = 6
     \<and> reads_per_env ?v = 616 \<and> writes_per_env ?v = 200
     \<and> storage_cost_year (by_year res ! 0) =
          environments_global (by_year res ! 0) * (avg_state_size_mb ?v / 1024)
            * storage_gb_month_price runner_rates * 12
     \<and> total_txn_cost (transactions (by_year res ! 0)) =
          (total_reads ?v 0 / 10000) * read_txn_per_10k_price runner_rates
            + (total_writes ?v 0 / 10000) * write_txn_per_10k_price runner_rates
     \<and> total_reads ?v 0 = of_int (reads_per_env ?v) * environments_global (by_year res ! 0)
     \<and> total_writes ?v 0 = of_int (writes_per_env ?v) * environments_global (by_year res ! 0)"
    by blast
  then have "environments_global (by_year res ! 0) = 350.0
     \<and> storage_accounts (by_year res ! 0) = 6
     \<and> reads_per_env ?v = 616 \<and> writes_per_env ?v = 200
     \<and> storage_cost_year (by_year res ! 0) = 350.0 * (1 / 1024) * 0.018 * 12
     \<and> total_txn_cost (transactions (by_year res ! 0)) =
         (616 * 350.0 / 10000) * 0.004 + (200 * 350.0 / 10000) * 0.05"
    by (simp add: runner_inputs_def runner_rates_def Inputs_post_init_def)
  with res show ?thesis by blast
qed

subsection \<open>C6: no storage account\<close>



subsection \<open>C7: invalid inputs\<close>

text \<open>Claim C7 says invalid inputs are rejected when \<open>Inputs\<close> is constructed. Nothing is:
  with \<open>-100\<close> clients, a growth rate of \<open>-2\<close> and an empty tier table the call returns
  a record with \<open>-100\<close> clients and negative storage and transaction costs; with 0 years
  it returns no record and a grand total of 0.\<close>

theorem invalid_inputs_accepted:
  "(\<exists>res. estimate_backend_costs (Inputs_post_init invalid_inputs) runner_rates = Inr res
       \<and> length (by_year res) = 1
       \<and> clients (by_year res ! 0) = - 100
       \<and> storage_cost_year (by_year res ! 0) = - (189 / 2560)
       \<and> total_txn_cost (transactions (by_year res ! 0)) = - (5453 / 12500))
   \<and> estimate_backend_costs (Inputs_post_init no_years_inputs) runner_rates
       = Inr \<lparr>by_year = [], grand_total = 0\<rparr>"
proof -
  let ?i = "Inputs_post_init invalid_inputs"
  obtain res where res: "estimate_backend_costs ?i runner_rates = Inr res"
    using estimate_total [of ?i runner_rates] post_init_tiers by blast
  have len: "length (by_year res) = 1"
    using estimate_Inr(1) [OF res]
    by (simp add: invalid_inputs_def Inputs_post_init_def runner_inputs_def)
  then have yb: "year_breakdown ?i runner_rates 0 = Inr (by_year res ! 0)"
    using estimate_Inr(2) [OF res, of 0] estimate_Inr(1) [OF res] by simp
  have c: "clients (by_year res ! 0) = - 100"
    using year_breakdown_fields(2) [OF yb]
    by (simp add: invalid_inputs_def Inputs_post_init_def runner_inputs_def clients_in_year_def)
  have s: "storage_cost_year (by_year res ! 0) = - (189 / 2560)"
    using year_breakdown_fields(5) [OF yb]
    by (simp add: invalid_inputs_def Inputs_post_init_def runner_inputs_def runner_rates_def
        clients_in_year_def total_state_gb_def total_envs_def state_size_gb_def)
  have t: "total_txn_cost (transactions (by_year res ! 0)) = - (5453 / 12500)"
    by (simp add: year_breakdown_transactions [OF yb] invalid_inputs_def Inputs_post_init_def
        runner_inputs_def runner_rates_def clients_in_year_def total_envs_def total_reads_def
        total_writes_def reads_per_env_def writes_per_env_def)
  have z: "estimate_backend_costs (Inputs_post_init no_years_inputs) runner_rates
       = Inr \<lparr>by_year = [], grand_total = 0\<rparr>"
    by (simp add: estimate_backend_costs_def no_years_inputs_def Inputs_post_init_def
        runner_inputs_def py_sum_def)
  from res len c s t z show ?thesis by blast
qed

text \<open>Claim C7, amended. Construction rejects nothing: \<^verbatim>\<open>__post_init__\<close> installs the default
  tier table when none was passed and leaves every other field as it is.
  \<open>estimate_backend_costs\<close> checks nothing either: with \<open>years\<close> zero or negative it
  returns no record and a grand total of 0, and a result that it returns has as many
  records as \<open>years\<close> says. Whether the call returns is left open here: on doubles the
  arithmetic of a year can still raise, as \<^verbatim>\<open>math.ceil\<close> does on an infinite value.\<close>

theorem construction_rejects_nothing:
  "Inputs_post_init i =
     i\<lparr>blob_vaulted_tiers :=
         Some (case blob_vaulted_tiers i of None \<Rightarrow> default_tiers | Some t \<Rightarrow> t)\<rparr>
   \<and> (years i \<le> 0 \<longrightarrow>
        estimate_backend_costs (Inputs_post_init i) r = Inr \<lparr>by_year = [], grand_total = 0\<rparr>)
   \<and> (\<forall>res. estimate_backend_costs (Inputs_post_init i) r = Inr res \<longrightarrow>
          length (by_year res) = nat (years i))"
proof -
  let ?i = "Inputs_post_init i"
  have y: "years ?i = years i" by (simp add: Inputs_post_init_def)
  have "?i = i\<lparr>blob_vaulted_tiers :=
           Some (case blob_vaulted_tiers i of None \<Rightarrow> default_tiers | Some t \<Rightarrow> t)\<rparr>"
    by (cases "blob_vaulted_tiers i") (simp_all add: Inputs_post_init_def)
  moreover have "estimate_backend_costs ?i r = Inr \<lparr>by_year = [], grand_total = 0\<rparr>"
    if "years i \<le> 0"
    using that y by (simp add: estimate_backend_costs_def py_sum_def)
  moreover have "length (by_year res) = nat (years i)"
    if "estimate_backend_costs ?i r = Inr res" for res
    using estimate_Inr(1) [OF that] y by simp
  ultimately show ?thesis by blast
qed

text \<open>Zero years: no record, grand total 0. The invalid inputs: their fields are kept as
  passed, and the call returns one record.\<close>

theorem construction_rejects_nothing_witness:
  "estimate_backend_costs (Inputs_post_init no_years_inputs) runner_rates
     = Inr \<lparr>by_year = [], grand_total = 0\<rparr>
   \<and> blob_vaulted_tiers (Inputs_post_init no_years_inputs) = Some default_tiers
   \<and> blob_vaulted_tiers (Inputs_post_init invalid_inputs) = Some Map.empty
   \<and> num_clients (Inputs_post_init invalid_inputs) = - 100
   \<and> growth_rate_clients (Inputs_post_init invalid_inputs) = - 2
   \<and> (\<exists>res. estimate_backend_costs (Inputs_post_init invalid_inputs) runner_rates = Inr res
          \<and> length (by_year res) = 1)"
proof -
  have y: "years no_years_inputs \<le> 0"
    by (simp add: no_years_inputs_def runner_inputs_def)
  from construction_rejects_nothing [of no_years_inputs runner_rates] y
  have a: "estimate_backend_costs (Inputs_post_init no_years_inputs) runner_rates
     = Inr \<lparr>by_year = [], grand_total = 0\<rparr>"
    by blast
  from construction_rejects_nothing [of no_years_inputs runner_rates]
  have b: "blob_vaulted_tiers (Inputs_post_init no_years_inputs) = Some default_tiers"
    by (simp add: no_years_inputs_def runner_inputs_def)
  from construction_rejects_nothing [of invalid_inputs runner_rates]
  have c: "blob_vaulted_tiers (Inputs_post_init invalid_inputs) = Some Map.empty
   \<and> num_clients (Inputs_post_init invalid_inputs) = - 100
   \<and> growth_rate_clients (Inputs_post_init invalid_inputs) = - 2"
    by (simp add: invalid_inputs_def runner_inputs_def)
  obtain res where res: "estimate_backend_costs (Inputs_post_init invalid_inputs) runner_rates = Inr res"
    using estimate_total [of "Inputs_post_init invalid_inputs" runner_rates] post_init_tiers by blast
  with construction_rejects_nothing [of invalid_inputs runner_rates] have "length (by_year res) = 1"
    by (simp add: invalid_inputs_def runner_inputs_def)
  with a b c res show ?thesis by blast
qed

subsection \<open>C8: fixed accounts, growing environments\<close>

text \<open>Claim C8. In the record of every year \<open>y\<close>, \<open>storage_accounts\<close> is
  \<open>num_regions * storage_accounts_per_region\<close> (so it is the same in every record, and so
  are the endpoint hours, \<open>total_accounts * hours_per_month * 12\<close>), and
  \<open>environments_global\<close> is \<open>clients_in_year(y) * envs_per_client\<close>. Changing the region
  and account counts to any \<open>n\<close> and \<open>m\<close> leaves the number of records and
  \<open>environments_global\<close> as they are.\<close>

theorem fixed_accounts_growing_environments:
  assumes "estimate_backend_costs i r = Inr res" and "y < length (by_year res)"
  shows
    "storage_accounts (by_year res ! y) = num_regions i * storage_accounts_per_region i
     \<and> endpoint_hours (private_link (by_year res ! y)) =
          of_int (num_regions i * storage_accounts_per_region i) * hours_per_month i * 12
     \<and> environments_global (by_year res ! y) =
          of_int (clients_in_year (num_clients i) (growth_rate_clients i) y) * envs_per_client i
     \<and> (\<forall>res'. estimate_backend_costs
                  (i\<lparr>num_regions := n, storage_accounts_per_region := m\<rparr>) r = Inr res'
            \<longrightarrow> length (by_year res') = length (by_year res)
                \<and> environments_global (by_year res' ! y) = environments_global (by_year res ! y))"
proof -
  let ?yb = "by_year res ! y"
  let ?i' = "i\<lparr>num_regions := n, storage_accounts_per_region := m\<rparr>"
  from assms have yb: "year_breakdown i r y = Inr ?yb"
    using estimate_Inr(1,2) [OF assms(1)] by simp
  note f = year_breakdown_fields [OF yb]
  have a: "storage_accounts ?yb = num_regions i * storage_accounts_per_region i"
    using f(4) by (simp add: total_accounts_def)
  have h: "endpoint_hours (private_link ?yb) =
          of_int (num_regions i * storage_accounts_per_region i) * hours_per_month i * 12"
    using year_breakdown_private_link(1) [OF yb] by (simp add: total_accounts_def)
  have e: "environments_global ?yb =
          of_int (clients_in_year (num_clients i) (growth_rate_clients i) y) * envs_per_client i"
    using f(3) by (simp add: total_envs_def)
  have o: "length (by_year res') = length (by_year res)
                \<and> environments_global (by_year res' ! y) = environments_global ?yb"
    if r': "estimate_backend_costs ?i' r = Inr res'" for res'
  proof -
    have len: "length (by_year res') = length (by_year res)"
      using estimate_Inr(1) [OF r'] estimate_Inr(1) [OF assms(1)] by simp
    with assms(2) have "year_breakdown ?i' r y = Inr (by_year res' ! y)"
      using estimate_Inr(1,2) [OF r'] by simp
    from year_breakdown_fields(3) [OF this] e len show ?thesis
      by (simp add: total_envs_def)
  qed
  from a h e o show ?thesis by blast
qed

text \<open>The runner's inputs, first and fifth year: 6 accounts and 52560 endpoint hours in both,
  350 and then \<open>245 * 3.5\<close> environments; with 7 regions of 4 accounts the fifth year has
  the same environments.\<close>

theorem fixed_accounts_growing_environments_witness:
  "\<exists>res res'.
      estimate_backend_costs (Inputs_post_init runner_inputs) runner_rates = Inr res
      \<and> estimate_backend_costs
           ((Inputs_post_init runner_inputs)\<lparr>num_regions := 7, storage_accounts_per_region := 4\<rparr>)
           runner_rates = Inr res'
      \<and> length (by_year res) = 5 \<and> length (by_year res') = 5
      \<and> storage_accounts (by_year res ! 0) = 6 \<and> storage_accounts (by_year res ! 4) = 6
      \<and> endpoint_hours (private_link (by_year res ! 0)) = 52560
      \<and> endpoint_hours (private_link (by_year res ! 4)) = 52560
      \<and> environments_global (by_year res ! 0) = 350
      \<and> environments_global (by_year res ! 4) = 245 * 3.5
      \<and> environments_global (by_year res' ! 4) = 245 * 3.5"
proof -
  let ?v = "Inputs_post_init runner_inputs"
  let ?w = "?v\<lparr>num_regions := 7, storage_accounts_per_region := 4\<rparr>"
  obtain res where res: "estimate_backend_costs ?v runner_rates = Inr res"
    using estimate_total [of ?v runner_rates] by (auto simp: runner_simps)
  obtain res' where res': "estimate_backend_costs ?w runner_rates = Inr res'"
    using estimate_total [of ?w runner_rates] by (auto simp: runner_simps)
  have len: "length (by_year res) = 5"
    using estimate_Inr(1) [OF res] by (simp add: runner_simps)
  then have y0: "0 < length (by_year res)" and y4: "4 < length (by_year res)" by simp_all
  have p4: "(1 + 0.25 :: real) ^ 4 = 625 / 256"
    by (simp add: power4_eq_xxxx)
  have c4: "clients_in_year 100 0.25 4 = 245"
    unfolding clients_in_year_def p4 by simp
  have a0: "storage_accounts (by_year res ! 0) = 6
      \<and> endpoint_hours (private_link (by_year res ! 0)) = 52560
      \<and> environments_global (by_year res ! 0) = 350"
    using fixed_accounts_growing_environments [OF res y0, where n = 7 and m = 4]
    by (simp add: runner_inputs_def Inputs_post_init_def clients_in_year_def)
  from fixed_accounts_growing_environments [OF res y4, where n = 7 and m = 4] res'
  have "storage_accounts (by_year res ! 4) =
          num_regions ?v * storage_accounts_per_region ?v
      \<and> endpoint_hours (private_link (by_year res ! 4)) =
          of_int (num_regions ?v * storage_accounts_per_region ?v) * hours_per_month ?v * 12
      \<and> environments_global (by_year res ! 4) =
          of_int (clients_in_year (num_clients ?v) (growth_rate_clients ?v) 4)
            * envs_per_client ?v
      \<and> length (by_year res') = length (by_year res)
      \<and> environments_global (by_year res' ! 4) = environments_global (by_year res ! 4)"
    by blast
  then have a4: "storage_accounts (by_year res ! 4) = 6
      \<and> endpoint_hours (private_link (by_year res ! 4)) = 52560
      \<and> environments_global (by_year res ! 4) = 245 * 3.5
      \<and> length (by_year res') = 5
      \<and> environments_global (by_year res' ! 4) = 245 * 3.5"
    using len c4 by (simp add: runner_inputs_def Inputs_post_init_def)
  from res res' len a0 a4 show ?thesis by blast
qed

subsection \<open>C9: the log-ingestion volume and the number of accounts\<close>

text \<open>Claim C9 says the division by \<open>total_accounts\<close> and the later multiplication by it cancel
  exactly. In double precision they do not always. One client with one environment, one
  deployment and one PR run makes 5 transactions (small integers, exact in a double);
  with 1024 bytes per transaction and 5 accounts the yearly volume comes out as
  \<open>5629499534213121 / 2 ^ 70\<close>, one unit in the last place above
  \<open>5 * 1024 / 1024 ^ 3 = 5629499534213120 / 2 ^ 70\<close>, which is what 1 account gives.\<close>

theorem log_volume_rounding_differs:
  "total_txns five_accounts_inputs 0 = 5
   \<and> total_accounts five_accounts_inputs = 5
   \<and> log_bytes_per_txn five_accounts_inputs = 1024
   \<and> log_ingestion_b64 5 5 1024 =
       Some (3002399751580331 / 37778931862957161709568,
             5629499534213121 / 1180591620717411303424)
   \<and> (5629499534213121 / 1180591620717411303424 :: real) \<noteq> 5 * 1024 / 1024 ^ 3
   \<and> log_ingestion_b64 5 1 1024 =
       Some (7505999378950827 / 18889465931478580854784, 5 * 1024 / 1024 ^ 3)"
proof -
  have five: "log_ingestion_b64 5 5 1024 =
       Some (3002399751580331 / 37778931862957161709568,
             5629499534213121 / 1180591620717411303424)"
    by (simp add: log_ingestion_b64_def b64_five_accounts_1 b64_five_accounts_2
        b64_five_accounts_3 b64_five_accounts_4 b64_five_accounts_5 b64_five_accounts_6
        b64_five_accounts_7)
  have one: "log_ingestion_b64 5 1 1024 =
       Some (7505999378950827 / 18889465931478580854784, 5 * 1024 / 1024 ^ 3)"
    by (simp add: log_ingestion_b64_def b64_five_accounts_1 b64_one_account_2
        b64_one_account_3 b64_one_account_4 b64_one_account_5 b64_one_account_6
        b64_one_account_7)
  have "(5629499534213121 / 1180591620717411303424 :: real) \<noteq> 5 * 1024 / 1024 ^ 3"
    by simp
  with five one five_accounts_facts(1-3) show ?thesis by blast
qed

text \<open>Claim C9, amended: in exact arithmetic. For \<open>total_accounts > 0\<close> the yearly
  log-ingestion volume of year \<open>y\<close> is \<open>total_txns * log_bytes_per_txn / 1024 ^ 3\<close> and
  its cost is that times the price; the per-account monthly figure is
  \<open>total_txns / 12 / total_accounts * log_bytes_per_txn / 1024 ^ 3\<close>; and with any
  other region and account counts \<open>n\<close> and \<open>m\<close> whose product is positive the yearly
  volume and cost are the same.\<close>

theorem log_volume_exact_arithmetic:
  assumes "estimate_backend_costs i r = Inr res" and "y < length (by_year res)"
    and "0 < total_accounts i"
  shows
    "ingestion_gb_year (logging (by_year res ! y)) =
        total_txns i y * log_bytes_per_txn i / 1024 ^ 3
     \<and> ingestion_cost_year (logging (by_year res ! y)) =
        total_txns i y * log_bytes_per_txn i / 1024 ^ 3 * log_ingestion_price_per_gb r
     \<and> gb_per_account_per_month (logging (by_year res ! y)) =
        total_txns i y / 12 / of_int (total_accounts i) * log_bytes_per_txn i / 1024 ^ 3
     \<and> (\<forall>res'. 0 < n * m
            \<and> estimate_backend_costs
                 (i\<lparr>num_regions := n, storage_accounts_per_region := m\<rparr>) r = Inr res'
          \<longrightarrow> ingestion_gb_year (logging (by_year res' ! y)) =
                ingestion_gb_year (logging (by_year res ! y))
              \<and> ingestion_cost_year (logging (by_year res' ! y)) =
                ingestion_cost_year (logging (by_year res ! y)))"
proof -
  have vol: "ingestion_gb_year (logging (by_year q ! y)) =
               total_txns j y * log_bytes_per_txn j / 1024 ^ 3
             \<and> ingestion_cost_year (logging (by_year q ! y)) =
               total_txns j y * log_bytes_per_txn j / 1024 ^ 3 * log_ingestion_price_per_gb r
             \<and> gb_per_account_per_month (logging (by_year q ! y)) =
               total_txns j y / 12 / of_int (total_accounts j) * log_bytes_per_txn j / 1024 ^ 3"
    if q: "estimate_backend_costs j r = Inr q" and y: "y < length (by_year q)"
      and pos: "0 < total_accounts j" for j q
  proof -
    from q y have yb: "year_breakdown j r y = Inr (by_year q ! y)"
      using estimate_Inr(2) [OF q, of y] estimate_Inr(1) [OF q] by simp
    from pos have "log_ingestion j y =
        Inr (total_txns j y / 12 / of_int (total_accounts j) * log_bytes_per_txn j / 1024 ^ 3,
             of_int (total_accounts j)
               * (total_txns j y / 12 / of_int (total_accounts j) * log_bytes_per_txn j / 1024 ^ 3)
               * 12)"
      by (simp add: log_ingestion_eq)
    with year_breakdown_logging(1) [OF yb]
    have "(gb_per_account_per_month (logging (by_year q ! y)),
           ingestion_gb_year (logging (by_year q ! y))) =
          (total_txns j y / 12 / of_int (total_accounts j) * log_bytes_per_txn j / 1024 ^ 3,
           of_int (total_accounts j)
             * (total_txns j y / 12 / of_int (total_accounts j) * log_bytes_per_txn j / 1024 ^ 3)
             * 12)"
      by (simp only: sum.inject)
    then have g: "gb_per_account_per_month (logging (by_year q ! y)) =
               total_txns j y / 12 / of_int (total_accounts j) * log_bytes_per_txn j / 1024 ^ 3"
      and v: "ingestion_gb_year (logging (by_year q ! y)) =
               of_int (total_accounts j)
                 * (total_txns j y / 12 / of_int (total_accounts j) * log_bytes_per_txn j / 1024 ^ 3)
                 * 12"
      by (simp_all only: prod.inject)
    from pos have nz: "(of_int (total_accounts j) :: real) \<noteq> 0" by simp
    from v nz have v': "ingestion_gb_year (logging (by_year q ! y)) =
               total_txns j y * log_bytes_per_txn j / 1024 ^ 3"
      by (simp add: field_simps)
    with year_breakdown_logging(2) [OF yb] g show ?thesis by simp
  qed
  let ?i' = "i\<lparr>num_regions := n, storage_accounts_per_region := m\<rparr>"
  have other: "ingestion_gb_year (logging (by_year res' ! y)) =
                ingestion_gb_year (logging (by_year res ! y))
              \<and> ingestion_cost_year (logging (by_year res' ! y)) =
                ingestion_cost_year (logging (by_year res ! y))"
    if nm: "0 < n * m" and r': "estimate_backend_costs ?i' r = Inr res'" for res'
  proof -
    have len: "length (by_year res') = length (by_year res)"
      using estimate_Inr(1) [OF r'] estimate_Inr(1) [OF assms(1)] by simp
    from nm have pos': "0 < total_accounts ?i'" by (simp add: total_accounts_def)
    have same: "total_txns ?i' y = total_txns i y" "log_bytes_per_txn ?i' = log_bytes_per_txn i"
      by (simp_all add: total_txns_def total_reads_def total_writes_def total_envs_def
          reads_per_env_def writes_per_env_def)
    from vol [OF r' _ pos'] vol [OF assms] len assms(2) same show ?thesis by simp
  qed
  from vol [OF assms] other show ?thesis by blast
qed

text \<open>The runner's inputs, first year: 285600 transactions, 6 accounts; and the same volume
  with 7 regions of 4 accounts.\<close>

theorem log_volume_exact_arithmetic_witness:
  "\<exists>res res'.
      estimate_backend_costs (Inputs_post_init runner_inputs) runner_rates = Inr res
      \<and> estimate_backend_costs
           ((Inputs_post_init runner_inputs)\<lparr>num_regions := 7, storage_accounts_per_region := 4\<rparr>)
           runner_rates = Inr res'
      \<and> 0 < length (by_year res)
      \<and> total_accounts (Inputs_post_init runner_inputs) = 6
      \<and> ingestion_gb_year (logging (by_year res ! 0)) = 285600 * 1024 / 1024 ^ 3
      \<and> ingestion_cost_year (logging (by_year res ! 0)) = 285600 * 1024 / 1024 ^ 3 * 2.76
      \<and> gb_per_account_per_month (logging (by_year res ! 0)) = 285600 / 12 / 6 * 1024 / 1024 ^ 3
      \<and> ingestion_gb_year (logging (by_year res' ! 0)) = 285600 * 1024 / 1024 ^ 3"
proof -
  let ?v = "Inputs_post_init runner_inputs"
  let ?w = "?v\<lparr>num_regions := 7, storage_accounts_per_region := 4\<rparr>"
  obtain res where res: "estimate_backend_costs ?v runner_rates = Inr res" "0 < length (by_year res)"
    using runner_first_year [of ?v runner_rates] by (auto simp: runner_simps)
  obtain res' where res': "estimate_backend_costs ?w runner_rates = Inr res'"
    using estimate_total [of ?w runner_rates] by (auto simp: runner_simps)
  have pos: "0 < total_accounts ?v" and six: "total_accounts ?v = 6"
    by (simp_all add: runner_simps)
  have tx: "total_txns ?v 0 = 285600" "log_bytes_per_txn ?v = 1024"
    "log_ingestion_price_per_gb runner_rates = 2.76"
    by (simp_all add: runner_simps)
  from log_volume_exact_arithmetic [OF res pos, where n = 7 and m = 4] res'
  have "ingestion_gb_year (logging (by_year res ! 0)) =
        total_txns ?v 0 * log_bytes_per_txn ?v / 1024 ^ 3
     \<and> ingestion_cost_year (logging (by_year res ! 0)) =
        total_txns ?v 0 * log_bytes_per_txn ?v / 1024 ^ 3 * log_ingestion_price_per_gb runner_rates
     \<and> gb_per_account_per_month (logging (by_year res ! 0)) =
        total_txns ?v 0 / 12 / of_int (total_accounts ?v) * log_bytes_per_txn ?v / 1024 ^ 3
     \<and> ingestion_gb_year (logging (by_year res' ! 0)) =
                ingestion_gb_year (logging (by_year res ! 0))"
    by simp
  then have "ingestion_gb_year (logging (by_year res ! 0)) = 285600 * 1024 / 1024 ^ 3
      \<and> ingestion_cost_year (logging (by_year res ! 0)) = 285600 * 1024 / 1024 ^ 3 * 2.76
      \<and> gb_per_account_per_month (logging (by_year res ! 0)) = 285600 / 12 / 6 * 1024 / 1024 ^ 3
      \<and> ingestion_gb_year (logging (by_year res' ! 0)) = 285600 * 1024 / 1024 ^ 3"
    unfolding tx six by simp
  with res res' six show ?thesis by blast
qed

subsection \<open>C10: reported counts are truncated\<close>

text \<open>Claim C10. The reported \<open>reads\<close>, \<open>writes\<close> and \<open>total\<close> are \<^verbatim>\<open>int()\<close> of the products
  \<open>reads_per_env * total_envs\<close>, \<open>writes_per_env * total_envs\<close> and of their sum, while
  \<open>read_cost\<close> and \<open>write_cost\<close> are computed from the products themselves. So a count
  that is not negative is at most the value the cost was computed from, and strictly
  smaller when that value is not an integer.\<close>

theorem reported_counts_truncated:
  assumes "estimate_backend_costs i r = Inr res" and "y < length (by_year res)"
  shows
    "reads (transactions (by_year res ! y)) =
        py_int (of_int (reads_per_env i) * environments_global (by_year res ! y))
     \<and> writes (transactions (by_year res ! y)) =
        py_int (of_int (writes_per_env i) * environments_global (by_year res ! y))
     \<and> total (transactions (by_year res ! y)) =
        py_int (of_int (reads_per_env i) * environments_global (by_year res ! y)
                  + of_int (writes_per_env i) * environments_global (by_year res ! y))
     \<and> read_cost (transactions (by_year res ! y)) =
        (of_int (reads_per_env i) * environments_global (by_year res ! y) / 10000)
          * read_txn_per_10k_price r
     \<and> write_cost (transactions (by_year res ! y)) =
        (of_int (writes_per_env i) * environments_global (by_year res ! y) / 10000)
          * write_txn_per_10k_price r
     \<and> (0 \<le> of_int (reads_per_env i) * environments_global (by_year res ! y) \<longrightarrow>
          of_int (reads (transactions (by_year res ! y)))
            \<le> of_int (reads_per_env i) * environments_global (by_year res ! y))
     \<and> (0 \<le> of_int (reads_per_env i) * environments_global (by_year res ! y)
          \<and> of_int (reads_per_env i) * environments_global (by_year res ! y) \<notin> \<int> \<longrightarrow>
          of_int (reads (transactions (by_year res ! y)))
            < of_int (reads_per_env i) * environments_global (by_year res ! y))
     \<and> (0 \<le> of_int (writes_per_env i) * environments_global (by_year res ! y)
          \<and> of_int (writes_per_env i) * environments_global (by_year res ! y) \<notin> \<int> \<longrightarrow>
          of_int (writes (transactions (by_year res ! y)))
            < of_int (writes_per_env i) * environments_global (by_year res ! y))"
proof -
  let ?yb = "by_year res ! y"
  from assms have yb: "year_breakdown i r y = Inr ?yb"
    using estimate_Inr(1,2) [OF assms(1)] by simp
  have e: "environments_global ?yb = total_envs i y"
    by (rule year_breakdown_fields(3) [OF yb])
  have t: "reads (transactions ?yb) = py_int (total_reads i y)"
    "writes (transactions ?yb) = py_int (total_writes i y)"
    "total (transactions ?yb) = py_int (total_txns i y)"
    "read_cost (transactions ?yb) = (total_reads i y / 10000) * read_txn_per_10k_price r"
    "write_cost (transactions ?yb) = (total_writes i y / 10000) * write_txn_per_10k_price r"
    by (simp_all add: year_breakdown_transactions [OF yb])
  have d: "total_reads i y = of_int (reads_per_env i) * environments_global ?yb"
    "total_writes i y = of_int (writes_per_env i) * environments_global ?yb"
    "total_txns i y = of_int (reads_per_env i) * environments_global ?yb
                        + of_int (writes_per_env i) * environments_global ?yb"
    using e by (simp_all add: total_reads_def total_writes_def total_txns_def)
  note le = py_int_le [of "total_reads i y"] py_int_le [of "total_writes i y"]
  show ?thesis
    using le unfolding t unfolding d by simp
qed

text \<open>One client with 3.5 environments, one deployment and no PR run: 10.5 reads and 3.5
  writes are priced, 10 and 3 are reported (and a total of 14).\<close>

theorem reported_counts_truncated_witness:
  "\<exists>res. estimate_backend_costs (Inputs_post_init fractional_inputs) runner_rates = Inr res
     \<and> 0 < length (by_year res)
     \<and> environments_global (by_year res ! 0) = 3.5
     \<and> reads (transactions (by_year res ! 0)) = 10
     \<and> writes (transactions (by_year res ! 0)) = 3
     \<and> total (transactions (by_year res ! 0)) = 14
     \<and> read_cost (transactions (by_year res ! 0)) = (10.5 / 10000) * 0.004
     \<and> write_cost (transactions (by_year res ! 0)) = (3.5 / 10000) * 0.05
     \<and> of_int (reads (transactions (by_year res ! 0)))
          < of_int (reads_per_env (Inputs_post_init fractional_inputs))
              * environments_global (by_year res ! 0)"
proof -
  let ?f = "Inputs_post_init fractional_inputs"
  obtain res where res: "estimate_backend_costs ?f runner_rates = Inr res" "0 < length (by_year res)"
    using runner_first_year [of ?f runner_rates] by (auto simp: fractional_inputs_def runner_simps)
  have yb: "year_breakdown ?f runner_rates 0 = Inr (by_year res ! 0)"
    using estimate_Inr(2) [OF res(1), of 0] estimate_Inr(1) [OF res(1)] res(2) by simp
  have e: "environments_global (by_year res ! 0) = 3.5"
    using year_breakdown_fields(3) [OF yb] by (simp add: fractional_inputs_def runner_simps)
  have rw: "reads_per_env ?f = 3" "writes_per_env ?f = 1"
    by (simp_all add: fractional_inputs_def runner_simps)
  have ni: "(21 / 2 :: real) \<notin> \<int>"
  proof
    assume "(21 / 2 :: real) \<in> \<int>"
    then obtain k :: int where "(21 / 2 :: real) = of_int k" by (auto elim: Ints_cases)
    then have "of_int (2 * k) = (of_int 21 :: real)" by simp
    then have "2 * k = 21" by (simp only: of_int_eq_iff)
    then show False by presburger
  qed
  from reported_counts_truncated [OF res] ni
  have "reads (transactions (by_year res ! 0)) = 10
     \<and> writes (transactions (by_year res ! 0)) = 3
     \<and> total (transactions (by_year res ! 0)) = 14
     \<and> read_cost (transactions (by_year res ! 0)) = (10.5 / 10000) * 0.004
     \<and> write_cost (transactions (by_year res ! 0)) = (3.5 / 10000) * 0.05
     \<and> of_int (reads (transactions (by_year res ! 0)))
          < of_int (reads_per_env ?f) * environments_global (by_year res ! 0)"
    unfolding e rw by (simp add: py_int_def runner_rates_def)
  with res e show ?thesis by blast
qed

end
